theory Spec2Isabelle
  imports Main "HOL-Library.Sublist"
begin

section \<open>Strings\<close>

text \<open>
  A Python \<open>str\<close> is a sequence of Unicode code points. The template keys and the
  weekday names of \<open>main.py\<close> are Arabic, so a string is modelled as the list of its
  code points; ASCII literals are written with \<open>ascii\<close>.
\<close>

type_synonym pystr = "nat list"

definition ascii :: "string \<Rightarrow> pystr" where
  "ascii s = map of_char s"

text \<open>\<open>str(n)\<close> for a non-negative integer: its decimal digits.\<close>

fun dec :: "nat \<Rightarrow> pystr" where
  "dec n = (if n < 10 then [48 + n] else dec (n div 10) @ [48 + n mod 10])"

declare dec.simps [simp del]

text \<open>The format \<open>{n:02d}\<close>: decimal, padded on the left with zeros to a width of at least 2.\<close>

definition fmt_02d :: "nat \<Rightarrow> pystr" where
  "fmt_02d n = replicate (2 - length (dec n)) 48 @ dec n"

text \<open>\<open>old in s\<close> for strings: \<open>old\<close> occurs in \<open>s\<close> as a contiguous substring.\<close>

fun contains :: "pystr \<Rightarrow> pystr \<Rightarrow> bool" where
  "contains old [] = (old = [])"
| "contains old (c # cs) = (prefix old (c # cs) \<or> contains old cs)"

text \<open>
  \<open>s.replace(old, new)\<close>: every non-overlapping occurrence, scanning from the left.
  The counter is the number of characters of a matched occurrence still to be skipped.
  For an empty \<open>old\<close> Python inserts \<open>new\<close> before every character and at the end.
\<close>

fun replace_from :: "pystr \<Rightarrow> pystr \<Rightarrow> nat \<Rightarrow> pystr \<Rightarrow> pystr" where
  "replace_from old new k [] = []"
| "replace_from old new (Suc k) (c # cs) = replace_from old new k cs"
| "replace_from old new 0 (c # cs) =
     (if prefix old (c # cs) then new @ replace_from old new (length old - 1) cs
      else c # replace_from old new 0 cs)"

definition py_replace :: "pystr \<Rightarrow> pystr \<Rightarrow> pystr \<Rightarrow> pystr" where
  "py_replace old new s =
     (if old = [] then new @ concat (map (\<lambda>c. c # new) s) else replace_from old new 0 s)"

text \<open>\<open>s.split(sep)\<close> for a one-character separator: always at least one part.\<close>

fun py_split :: "nat \<Rightarrow> pystr \<Rightarrow> pystr list" where
  "py_split sep [] = [[]]"
| "py_split sep (c # cs) =
     (case py_split sep cs of
        [] \<Rightarrow> [[c]]
      | p # ps \<Rightarrow> if c = sep then [] # p # ps else (c # p) # ps)"

text \<open>The code points for which \<open>str.isspace()\<close> holds, and \<open>s.strip()\<close>.\<close>

definition is_space :: "nat \<Rightarrow> bool" where
  "is_space c = (c \<in> set [9, 10, 11, 12, 13, 28, 29, 30, 31, 32, 133, 160, 5760,
     8192, 8193, 8194, 8195, 8196, 8197, 8198, 8199, 8200, 8201, 8202,
     8232, 8233, 8239, 8287, 12288])"

definition strip :: "pystr \<Rightarrow> pystr" where
  "strip s = rev (dropWhile is_space (rev (dropWhile is_space s)))"

text \<open>\<open>sep.join(parts)\<close>.\<close>

fun join :: "pystr \<Rightarrow> pystr list \<Rightarrow> pystr" where
  "join sep [] = []"
| "join sep [p] = p"
| "join sep (p # q # ps) = p @ sep @ join sep (q # ps)"

section \<open>Exceptions\<close>

text \<open>
  The exceptions the code distinguishes: \<open>ValueError\<close> (caught in the date loop),
  \<open>IndexError\<close> (list indexing), \<open>HTTPException\<close> with its status code and detail,
  and any other exception, kept with its message.
\<close>

datatype exn =
    ValueError pystr
  | IndexError pystr
  | HTTPException nat pystr
  | OtherError pystr

text \<open>\<open>xs[i]\<close> for a non-negative index.\<close>

definition get :: "'a list \<Rightarrow> nat \<Rightarrow> exn + 'a" where
  "get xs i = (if i < length xs then Inr (xs ! i) else Inl (IndexError (ascii ''list index out of range'')))"

text \<open>\<open>xs[-1]\<close>.\<close>

definition get_last :: "'a list \<Rightarrow> exn + 'a" where
  "get_last xs = (if xs = [] then Inl (IndexError (ascii ''list index out of range'')) else Inr (last xs))"

section \<open>Data model\<close>

record person =
  name :: pystr
  nationality :: pystr
  id_number :: pystr

record get_pass_data =
  people :: "person list"
  dates :: "pystr list"

text \<open>The attributes of a parsed \<open>datetime\<close> and of a \<open>Hijri\<close> date that the code reads.\<close>

record datetime =
  year :: nat
  month :: nat
  day :: nat

record hijri =
  hyear :: nat
  hmonth :: nat
  hday :: nat

text \<open>
  \<open>date_obj.weekday()\<close> is a function of the date alone, fixed by the proleptic Gregorian
  calendar: the ordinal of a date counts days from 1 January of year 1, and
  \<open>weekday()\<close> is \<open>(toordinal() + 6) % 7\<close>, Monday being 0 and Sunday 6. ISO 8601 numbers
  the days from Monday as 1 to Sunday as 7: \<open>isoweekday()\<close> is \<open>toordinal() % 7 or 7\<close>.
  A parsed date has a year from 1 and a month from 1 to 12, where the table of the days
  before a month is read.
\<close>

definition is_leap :: "nat \<Rightarrow> bool" where
  "is_leap y = (y mod 4 = 0 \<and> (y mod 100 \<noteq> 0 \<or> y mod 400 = 0))"

definition days_before_year :: "nat \<Rightarrow> nat" where
  "days_before_year y = (y - 1) * 365 + (y - 1) div 4 - (y - 1) div 100 + (y - 1) div 400"

definition days_before_month :: "nat \<Rightarrow> nat \<Rightarrow> nat" where
  "days_before_month y m =
     [0, 31, 59, 90, 120, 151, 181, 212, 243, 273, 304, 334] ! (m - 1)
       + (if m > 2 \<and> is_leap y then 1 else 0)"

definition toordinal :: "datetime \<Rightarrow> nat" where
  "toordinal d = days_before_year (year d) + days_before_month (year d) (month d) + day d"

definition weekday :: "datetime \<Rightarrow> nat" where
  "weekday d = (toordinal d + 6) mod 7"

definition isoweekday :: "datetime \<Rightarrow> nat" where
  "isoweekday d = (if toordinal d mod 7 = 0 then 7 else toordinal d mod 7)"

text \<open>
  Files are named by where they live: the template, a file of the request's temporary
  directory (\<open>os.path.join(temp_dir, name)\<close>), the output directory \<open>output\<close>, and a
  file of it (\<open>os.path.join(output_dir, name)\<close>).
\<close>

datatype path = Template | Temp pystr | OutputDir | Output pystr

fun is_output :: "path \<Rightarrow> bool" where
  "is_output OutputDir = True"
| "is_output (Output n) = True"
| "is_output p = False"

section \<open>Word documents\<close>

text \<open>
  The part of a python-docx document that \<open>main.py\<close> touches: tables of rows of cells,
  a cell holding paragraphs of runs, a run with its text and its font name, size (in
  points) and bold flag, a paragraph with its alignment; and the child elements of the
  settings element, as (tag, value of \<open>w:val\<close>).
\<close>

datatype alignment = LEFT | CENTER | RIGHT | JUSTIFY

record run =
  run_text :: pystr
  font_name :: "pystr option"
  font_size :: "nat option"
  bold :: "bool option"

record para =
  runs :: "run list"
  alignment :: "alignment option"

record cell =
  paragraphs :: "para list"

record table =
  grid_cols :: nat
  rows :: "cell list list"

record document =
  tables :: "table list"
  settings :: "(pystr \<times> pystr) list"

text \<open>\<open>paragraph.text\<close> and \<open>cell.text\<close> (read): the runs' texts, paragraphs joined by a line feed.\<close>

definition paragraph_text :: "para \<Rightarrow> pystr" where
  "paragraph_text p = concat (map run_text (runs p))"

definition cell_text :: "cell \<Rightarrow> pystr" where
  "cell_text c = join [10] (map paragraph_text (paragraphs c))"

text \<open>
  \<open>cell.text = s\<close> (write): the content of the cell is removed and replaced by one
  paragraph holding one run with the text \<open>s\<close>; the former runs and their formatting are lost.
\<close>

definition set_cell_text :: "pystr \<Rightarrow> cell \<Rightarrow> cell" where
  "set_cell_text s c =
     c\<lparr>paragraphs := [\<lparr>runs = [\<lparr>run_text = s, font_name = None, font_size = None, bold = None\<rparr>],
                        alignment = None\<rparr>]\<rparr>"

text \<open>\<open>table.add_row()\<close>: a new last row with one cell per grid column, each an empty paragraph.\<close>

definition empty_cell :: cell where
  "empty_cell = \<lparr>paragraphs = [\<lparr>runs = [], alignment = None\<rparr>]\<rparr>"

definition add_row :: "table \<Rightarrow> table" where
  "add_row t = t\<lparr>rows := rows t @ [replicate (grid_cols t) empty_cell]\<rparr>"

section \<open>The environment\<close>

text \<open>
  What the code calls outside itself is a parameter: the date parser
  \<open>datetime.fromisoformat\<close>, the calendar
  conversion \<open>Gregorian(y, m, d).to_hijri()\<close>, the file system, python-docx opening and
  saving a file, the OXML calls of the font embedding, the \<open>unoconv\<close> process, PyPDF2, the
  ZIP writer, and \<open>str()\<close> of an \<open>HTTPException\<close>. \<open>None\<close> of an option-valued result is a
  raised exception where no exception value is kept; \<open>Some e\<close> of an \<open>exn option\<close> is the
  exception raised by a call that returns nothing.
\<close>

record env =
  fromisoformat :: "pystr \<Rightarrow> datetime option"
  to_hijri :: "nat \<Rightarrow> nat \<Rightarrow> nat \<Rightarrow> hijri option"
  copy_file :: "path \<Rightarrow> path \<Rightarrow> exn option"
  open_docx :: "path \<Rightarrow> exn + document"
  oxml_fault :: "document \<Rightarrow> nat option"
  save_docx :: "path \<Rightarrow> exn option"
  unoconv :: "path \<Rightarrow> path \<Rightarrow> exn + (int \<times> bool)"
  pdf_merge :: "path list \<Rightarrow> path \<Rightarrow> exn option"
  zip_write :: "path list \<Rightarrow> path \<Rightarrow> exn option"
  makedirs :: "path \<Rightarrow> exn option"
  http_str :: "nat \<Rightarrow> pystr \<Rightarrow> pystr"

text \<open>The calls that write files, in the order they are made.\<close>

datatype call =
    Copy path path
  | Save path
  | Unoconv path path
  | MakeDirs path
  | PdfMerge "path list" path
  | Zip "path list" path

fun writes_output :: "call \<Rightarrow> bool" where
  "writes_output (Copy src dst) = is_output dst"
| "writes_output (Save p) = is_output p"
| "writes_output (Unoconv src dst) = is_output dst"
| "writes_output (MakeDirs p) = is_output p"
| "writes_output (PdfMerge ps dst) = is_output dst"
| "writes_output (Zip ps dst) = is_output dst"

text \<open>Sequencing of a computation that may raise.\<close>

definition bind_exn :: "exn + 'a \<Rightarrow> ('a \<Rightarrow> exn + 'b) \<Rightarrow> exn + 'b" where
  "bind_exn m f = (case m of Inl e \<Rightarrow> Inl e | Inr x \<Rightarrow> f x)"

section \<open>\<open>embed_fonts\<close>\<close>

definition font_settings :: "(pystr \<times> pystr) list" where
  "font_settings =
     [(ascii ''w:embedSystemFonts'', ascii ''true''),
      (ascii ''w:embedTrueTypeFonts'', ascii ''true''),
      (ascii ''w:saveSubsetFonts'', ascii ''true'')]"

text \<open>
  The body of the \<open>try\<close> appends three elements to the settings. \<open>oxml_fault doc = Some k\<close>
  says that a call of the body raises after \<open>k\<close> of the elements were appended; the
  handler catches every exception and returns \<open>False\<close>. The result is the returned flag and
  the document as it was left.
\<close>

definition embed_fonts :: "env \<Rightarrow> document \<Rightarrow> bool \<times> document" where
  "embed_fonts E doc =
     (case oxml_fault E doc of
        None \<Rightarrow> (True, doc\<lparr>settings := settings doc @ font_settings\<rparr>)
      | Some k \<Rightarrow> (False, doc\<lparr>settings := settings doc @ take k font_settings\<rparr>))"

section \<open>\<open>convert_to_hijri\<close>\<close>

definition ARABIC_DAY_NAMES :: "pystr list" where
  "ARABIC_DAY_NAMES =
     [[1575, 1604, 1571, 1581, 1583],
      [1575, 1604, 1573, 1579, 1606, 1610, 1606],
      [1575, 1604, 1579, 1604, 1575, 1579, 1575, 1569],
      [1575, 1604, 1571, 1585, 1576, 1593, 1575, 1569],
      [1575, 1604, 1582, 1605, 1610, 1587],
      [1575, 1604, 1580, 1605, 1593, 1577],
      [1575, 1604, 1587, 1576, 1578]]"

text \<open>
  Every exception raised in the body, whichever call raises it, is caught and replaced
  by \<open>ValueError("Invalid date format: " + date_str)\<close>.
\<close>

definition invalid_date :: "pystr \<Rightarrow> exn" where
  "invalid_date date_str = ValueError (ascii ''Invalid date format: '' @ date_str)"

definition convert_to_hijri :: "env \<Rightarrow> pystr \<Rightarrow> exn + (pystr \<times> pystr \<times> pystr)" where
  "convert_to_hijri E date_str =
     (case fromisoformat E (py_replace (ascii ''Z'') (ascii ''+00:00'') date_str) of
        None \<Rightarrow> Inl (invalid_date date_str)
      | Some date_obj \<Rightarrow>
          (let day_of_week = weekday date_obj;
               arabic_day_index = (day_of_week + 1) mod 7
           in case get ARABIC_DAY_NAMES arabic_day_index of
                Inl e \<Rightarrow> Inl (invalid_date date_str)
              | Inr arabic_day_name \<Rightarrow>
                  (case to_hijri E (year date_obj) (month date_obj) (day date_obj) of
                     None \<Rightarrow> Inl (invalid_date date_str)
                   | Some h \<Rightarrow>
                       (let hijri_date_str =
                              fmt_02d (hday h) @ ascii ''/'' @ fmt_02d (hmonth h) @ ascii ''/'' @ dec (hyear h);
                            gregorian_date_str =
                              fmt_02d (day date_obj) @ ascii ''/'' @ fmt_02d (month date_obj) @ ascii ''/''
                                @ dec (year date_obj)
                        in Inr (hijri_date_str, arabic_day_name, gregorian_date_str)))))"

section \<open>\<open>set_cell_style\<close>\<close>

definition arial_body_cs :: pystr where
  "arial_body_cs = ascii ''Arial (Body CS)''"

definition times_headings_cs :: pystr where
  "times_headings_cs = ascii ''Times New Roman (Headings CS)''"

definition set_cell_style :: "cell \<Rightarrow> cell" where
  "set_cell_style c =
     (let c1 = set_cell_text (strip (cell_text c)) c
      in c1\<lparr>paragraphs :=
              map (\<lambda>p. \<lparr>runs = map (\<lambda>r. r\<lparr>font_name := Some arial_body_cs,
                                              font_size := Some 15,
                                              bold := Some True\<rparr>) (runs p),
                          alignment = Some CENTER\<rparr>)
                  (paragraphs c1)\<rparr>)"



section \<open>\<open>process_document\<close>: the placeholder map\<close>

text \<open>
  The parameter \<open>people\<close> of \<open>process_document\<close> is written \<open>visitors\<close>, since \<open>people\<close> is
  the field of the request.

  A \<open>dict\<close> keeps its keys in insertion order, and the substitution loop runs over
  \<open>replacements.items()\<close>: the map is an association list, an assignment to a present
  key keeps its place, one to a new key appends.
\<close>

fun dict_set :: "'k \<Rightarrow> 'v \<Rightarrow> ('k \<times> 'v) list \<Rightarrow> ('k \<times> 'v) list" where
  "dict_set k v [] = [(k, v)]"
| "dict_set k v ((k', v') # d) = (if k = k' then (k, v) # d else (k', v') # dict_set k v d)"

text \<open>A run of assignments, in the order written.\<close>

definition dict_update :: "('k \<times> 'v) list \<Rightarrow> ('k \<times> 'v) list \<Rightarrow> ('k \<times> 'v) list" where
  "dict_update d kvs = foldl (\<lambda>d kv. dict_set (fst kv) (snd kv) d) d kvs"

text \<open>The placeholder keys of the template.\<close>

definition day_key :: pystr where
  "day_key = [40, 1575, 1604, 1610, 1608, 1605, 41]"

definition count_key :: pystr where
  "count_key = [1575, 1604, 1605, 1608, 1590, 1581, 32, 1607, 1608, 1610, 1575, 1578, 1607, 1605,
     32, 1576, 1575, 1604, 1576, 1610, 1575, 1606, 32, 1575, 1604, 1605, 1585, 1601, 1602, 32,
     1608, 1593, 1583, 1583, 1607, 1605, 32, 40, 1593, 41]"

definition visitor_key :: "nat \<Rightarrow> pystr" where
  "visitor_key i = [40, 1575, 1604, 1586, 1575, 1574, 1585] @ dec i @ [41]"

definition id_key :: "nat \<Rightarrow> pystr" where
  "id_key i = [40, 1575, 1604, 1607, 1608, 1610, 1607] @ dec i @ [41]"

definition nationality_key :: "nat \<Rightarrow> pystr" where
  "nationality_key i = [40, 1575, 1604, 1580, 1606, 1587, 1610, 1607] @ dec i @ [41]"

definition first_key :: pystr where
  "first_key = [40, 1575, 1608, 1604, 1607, 1605, 41]"

definition last_key :: pystr where
  "last_key = [40, 1575, 1582, 1585, 1607, 1605, 41]"

text \<open>
  The value of the count label: the fixed wording up to the opening parenthesis, the
  count formatted with \<open>02d\<close>, the closing parenthesis, a space and U+2612 (the ballot box
  with X).
\<close>

definition count_label_prefix :: pystr where
  "count_label_prefix = [1575, 1604, 1605, 1608, 1590, 1581, 32, 1607, 1608, 1610, 1575, 1578, 1607,
     1605, 32, 1576, 1575, 1604, 1576, 1610, 1575, 1606, 32, 1575, 1604, 1605, 1585, 1601, 1602,
     32, 1608, 1593, 1583, 1583, 1607, 1605, 32, 40]"

definition count_label_suffix :: pystr where
  "count_label_suffix = [41, 32, 9746]"

definition count_label :: "nat \<Rightarrow> pystr" where
  "count_label num_people = count_label_prefix @ fmt_02d num_people @ count_label_suffix"

text \<open>
  Lines 143 to 186: the date entries (an index into a \<open>split('/')\<close> raises when the part
  is missing), the count label, then the three cases on the number of people. In the
  last case \<open>people[0]\<close> and \<open>people[-1]\<close> raise on the empty list.
\<close>

definition replacements_of ::
  "pystr \<times> pystr \<times> pystr \<Rightarrow> person list \<Rightarrow> exn + (pystr \<times> pystr) list" where
  "replacements_of date_info visitors =
     (case date_info of (hijri_date_str, day_name, gregorian_date_str) \<Rightarrow>
      bind_exn (get (py_split 47 hijri_date_str) 0) (\<lambda>hD.
      bind_exn (get (py_split 47 hijri_date_str) 1) (\<lambda>hM.
      bind_exn (get (py_split 47 hijri_date_str) 2) (\<lambda>hY.
      bind_exn (get (py_split 47 gregorian_date_str) 0) (\<lambda>gd.
      bind_exn (get (py_split 47 gregorian_date_str) 1) (\<lambda>gm.
      bind_exn (get (py_split 47 gregorian_date_str) 2) (\<lambda>gyyyy.
        (let replacements =
               [(day_key, day_name),
                (ascii ''[D]'', hD), (ascii ''[M]'', hM), (ascii ''[Y]'', hY),
                (ascii ''[d]'', gd), (ascii ''[m]'', gm), (ascii ''[yyyy]'', gyyyy)];
             num_people = length visitors;
             replacements = dict_set count_key (count_label num_people) replacements
         in if num_people = 1 then
              bind_exn (get visitors 0) (\<lambda>person.
                Inr (dict_update replacements
                  [(visitor_key 1, name person),
                   (id_key 1, id_number person),
                   (nationality_key 1, nationality person),
                   (visitor_key 2, []),
                   (id_key 2, []),
                   (nationality_key 2, []),
                   (first_key, []),
                   (last_key, [])]))
            else if num_people = 2 then
              Inr (dict_update
                (foldl (\<lambda>r ip. dict_update r
                          [(visitor_key (fst ip), name (snd ip)),
                           (id_key (fst ip), id_number (snd ip)),
                           (nationality_key (fst ip), nationality (snd ip))])
                   replacements (enumerate 1 visitors))
                [(first_key, []), (last_key, [])])
            else
              (let replacements = dict_update replacements
                     [(visitor_key 1, []),
                      (id_key 1, []),
                      (nationality_key 1, []),
                      (visitor_key 2, []),
                      (id_key 2, []),
                      (nationality_key 2, [])]
               in bind_exn (get visitors 0) (\<lambda>first_person.
                  bind_exn (get_last visitors) (\<lambda>last_person.
                    Inr (dict_update replacements
                      [(first_key, name first_person),
                       (last_key, name last_person)]))))))))))))"

section \<open>\<open>process_document\<close>: substitution and styles\<close>

definition label_fragment :: pystr where
  "label_fragment = [1604, 1605, 1608, 1590, 1581, 32, 1607, 1608, 1610, 1575, 1578, 1607, 1605,
     32, 1576, 1575, 1604, 1576, 1610, 1575, 1606]"

text \<open>Lines 192 to 194: each key found in the cell's text rewrites the whole cell.\<close>

definition substitute :: "(pystr \<times> pystr) list \<Rightarrow> cell \<Rightarrow> cell" where
  "substitute replacements c =
     foldl (\<lambda>c kv. if contains (fst kv) (cell_text c)
                    then set_cell_text (py_replace (fst kv) (snd kv) (cell_text c)) c
                    else c) c replacements"

text \<open>
  Lines 198 to 223, for one run: the new run and the alignment of its paragraph
  (\<open>al\<close> is the alignment before the run; the last branch and a date value in none of
  the three groups leave it).
\<close>

definition style_run ::
  "(pystr \<times> pystr) list \<Rightarrow> person list \<Rightarrow> pystr \<Rightarrow> run \<Rightarrow> alignment option
     \<Rightarrow> run \<times> alignment option" where
  "style_run replacements visitors day_name r al =
     (let txt = strip (run_text r);
          g = map_of replacements
      in if contains label_fragment txt then
           (r\<lparr>font_size := Some 15, bold := Some False, font_name := Some times_headings_cs\<rparr>,
            Some RIGHT)
         else if Some txt \<in> set [g (ascii ''[D]''), g (ascii ''[M]''), g (ascii ''[Y]''),
                                  g (ascii ''[d]''), g (ascii ''[m]''), g (ascii ''[yyyy]'')] then
           (r\<lparr>font_size := Some 8, bold := Some True, font_name := Some arial_body_cs\<rparr>,
            if Some txt \<in> set [g (ascii ''[d]''), g (ascii ''[D]'')] then Some CENTER
            else if Some txt \<in> set [g (ascii ''[M]''), g (ascii ''[m]'')] then Some CENTER
            else if Some txt \<in> set [g (ascii ''[Y]''), g (ascii ''[yyyy]'')] then Some RIGHT
            else al)
         else if txt \<in> set (map name visitors) \<union> set (map nationality visitors)
                       \<union> set (map id_number visitors) \<union> {day_name} then
           (r\<lparr>font_size := Some 15, bold := Some True\<rparr>, Some RIGHT)
         else
           (r\<lparr>font_size := Some 15, bold := Some True, font_name := Some times_headings_cs\<rparr>, al))"

fun style_runs ::
  "(pystr \<times> pystr) list \<Rightarrow> person list \<Rightarrow> pystr \<Rightarrow> run list \<Rightarrow> alignment option
     \<Rightarrow> run list \<times> alignment option" where
  "style_runs replacements visitors day_name [] al = ([], al)"
| "style_runs replacements visitors day_name (r # rs) al =
     (case style_run replacements visitors day_name r al of
        (r', al') \<Rightarrow>
          (case style_runs replacements visitors day_name rs al' of
             (rs', al'') \<Rightarrow> (r' # rs', al'')))"

definition style_paragraph :: "(pystr \<times> pystr) list \<Rightarrow> person list \<Rightarrow> pystr \<Rightarrow> para \<Rightarrow> para" where
  "style_paragraph replacements visitors day_name p =
     (case style_runs replacements visitors day_name (runs p) (alignment p) of
        (rs, al) \<Rightarrow> p\<lparr>runs := rs, alignment := al\<rparr>)"

definition fill_cell :: "(pystr \<times> pystr) list \<Rightarrow> person list \<Rightarrow> pystr \<Rightarrow> cell \<Rightarrow> cell" where
  "fill_cell replacements visitors day_name c =
     (let c1 = substitute replacements c
      in c1\<lparr>paragraphs := map (style_paragraph replacements visitors day_name) (paragraphs c1)\<rparr>)"

text \<open>Lines 189 to 223: every cell of every row of every table.\<close>

definition fill_tables :: "(pystr \<times> pystr) list \<Rightarrow> person list \<Rightarrow> pystr \<Rightarrow> document \<Rightarrow> document" where
  "fill_tables replacements visitors day_name doc =
     doc\<lparr>tables := map (\<lambda>t. t\<lparr>rows := map (map (fill_cell replacements visitors day_name)) (rows t)\<rparr>)
                        (tables doc)\<rparr>"

section \<open>\<open>process_document\<close>: the second table\<close>

text \<open>Lines 245 and 246: \<open>set_cell_style(row.cells[j])\<close> for the indices \<open>js\<close> in turn.\<close>

fun style_cells :: "nat list \<Rightarrow> cell list \<Rightarrow> exn + cell list" where
  "style_cells [] row = Inr row"
| "style_cells (j # js) row =
     bind_exn (get row j) (\<lambda>c. style_cells js (row[j := set_cell_style c]))"

text \<open>Lines 240 to 246 for one person: a row with fewer than three cells raises.\<close>

definition write_row :: "person \<Rightarrow> cell list \<Rightarrow> exn + cell list" where
  "write_row person row =
     bind_exn (get row 0) (\<lambda>c0.
       (let row = row[0 := set_cell_text (id_number person) c0]
        in bind_exn (get row 1) (\<lambda>c1.
             (let row = row[1 := set_cell_text (nationality person) c1]
              in bind_exn (get row 2) (\<lambda>c2.
                   (let row = row[2 := set_cell_text (name person) c2]
                    in style_cells [0, 1, 2] row))))))"

text \<open>
  Lines 231 to 246, \<open>for i, person in enumerate(people, start=1)\<close>: the row of index
  \<open>i\<close> when \<open>i <= len(table.rows) - 1\<close> (an integer comparison: the difference is \<open>-1\<close> for a
  table without rows), the row added by \<open>add_row\<close> otherwise.
\<close>

fun write_rows :: "nat \<Rightarrow> person list \<Rightarrow> table \<Rightarrow> exn + table" where
  "write_rows i [] t = Inr t"
| "write_rows i (person # rest) t =
     (let kt = (if int i \<le> int (length (rows t)) - 1 then (i, t)
                else (length (rows t), add_row t))
      in bind_exn (write_row person (rows (snd kt) ! fst kt)) (\<lambda>row.
           write_rows (Suc i) rest ((snd kt)\<lparr>rows := (rows (snd kt))[fst kt := row]\<rparr>)))"

text \<open>Lines 226 to 246: \<open>doc.tables[1]\<close> raises when the document has fewer than two tables.\<close>

definition write_overflow :: "person list \<Rightarrow> document \<Rightarrow> exn + document" where
  "write_overflow visitors doc =
     (if length visitors > 2 then
        bind_exn (get (tables doc) 1) (\<lambda>t.
        bind_exn (write_rows 1 visitors t) (\<lambda>t'.
          Inr (doc\<lparr>tables := (tables doc)[1 := t']\<rparr>)))
      else Inr doc)"

section \<open>\<open>process_document\<close>\<close>

text \<open>
  The result is the calls made and either the exception raised or the document as it
  was saved at \<open>output_file\<close> (the source returns \<open>output_file\<close> itself).
\<close>

definition process_document ::
  "env \<Rightarrow> pystr \<times> pystr \<times> pystr \<Rightarrow> person list \<Rightarrow> path \<Rightarrow> path
     \<Rightarrow> call list \<times> (exn + document)" where
  "process_document E date_info visitors template_file output_file =
     (case copy_file E template_file output_file of
        Some e \<Rightarrow> ([Copy template_file output_file], Inl e)
      | None \<Rightarrow>
          (case bind_exn (open_docx E output_file) (\<lambda>doc.
                bind_exn (replacements_of date_info visitors) (\<lambda>replacements.
                bind_exn (write_overflow visitors
                            (fill_tables replacements visitors (fst (snd date_info)) doc)) (\<lambda>doc.
                  Inr (snd (embed_fonts E doc))))) of
             Inl e \<Rightarrow> ([Copy template_file output_file], Inl e)
           | Inr doc \<Rightarrow>
               (case save_docx E output_file of
                  Some e \<Rightarrow> ([Copy template_file output_file, Save output_file], Inl e)
                | None \<Rightarrow> ([Copy template_file output_file, Save output_file], Inr doc))))"

section \<open>Conversion and packaging\<close>

text \<open>\<open>unoconv\<close> gives the return code of the process and whether the PDF exists afterwards.\<close>

definition convert_to_pdf :: "env \<Rightarrow> path \<Rightarrow> path \<Rightarrow> bool" where
  "convert_to_pdf E docx_file pdf_file =
     (case unoconv E docx_file pdf_file of
        Inl e \<Rightarrow> False
      | Inr (returncode, pdf_exists) \<Rightarrow>
          if returncode \<noteq> 0 then False
          else if \<not> pdf_exists then False
          else True)"

definition merge_pdfs :: "env \<Rightarrow> path list \<Rightarrow> path \<Rightarrow> bool" where
  "merge_pdfs E pdf_files output_file =
     (case pdf_merge E pdf_files output_file of Some e \<Rightarrow> False | None \<Rightarrow> True)"

definition create_docx_zip :: "env \<Rightarrow> path list \<Rightarrow> path \<Rightarrow> bool" where
  "create_docx_zip E docx_files output_zip =
     (case zip_write E docx_files output_zip of Some e \<Rightarrow> False | None \<Rightarrow> True)"

section \<open>\<open>generate_getpass\<close>\<close>

datatype response =
    FileResponse path pystr pystr
  | HTTPError nat pystr

text \<open>\<open>str(e)\<close>.\<close>

fun exn_str :: "env \<Rightarrow> exn \<Rightarrow> pystr" where
  "exn_str E (ValueError m) = m"
| "exn_str E (IndexError m) = m"
| "exn_str E (OtherError m) = m"
| "exn_str E (HTTPException code detail) = http_str E code detail"

text \<open>
  Lines 483 to 485, \<open>except ValueError as e\<close>: a \<open>ValueError\<close> raised anywhere in the body of
  the loop is replaced by an \<open>HTTPException\<close> of status 400; any other exception passes.
\<close>

fun on_value_error :: "env \<Rightarrow> exn \<Rightarrow> exn" where
  "on_value_error E (ValueError m) =
     HTTPException 400 (ascii ''Invalid date format: '' @ exn_str E (ValueError m))"
| "on_value_error E e = e"

definition docx_name :: "nat \<Rightarrow> pystr" where
  "docx_name i = ascii ''getpass_'' @ dec i @ ascii ''.docx''"

definition pdf_name :: "nat \<Rightarrow> pystr" where
  "pdf_name i = ascii ''getpass_'' @ dec i @ ascii ''.pdf''"

text \<open>
  For reading the statements about the loop: the two files of the date of index \<open>i\<close>, and
  whether the conversion of its document succeeds.
\<close>

abbreviation docx_at :: "nat \<Rightarrow> path" where
  "docx_at i \<equiv> Temp (docx_name i)"

abbreviation pdf_at :: "nat \<Rightarrow> path" where
  "pdf_at i \<equiv> Temp (pdf_name i)"

abbreviation converts :: "env \<Rightarrow> nat \<Rightarrow> bool" where
  "converts E i \<equiv> convert_to_pdf E (Temp (docx_name i)) (Temp (pdf_name i))"

text \<open>
  Lines 464 to 485, \<open>for i, date_entry in enumerate(data.dates)\<close>, from the index \<open>i\<close> on,
  with \<open>docx_files\<close>, \<open>pdf_files\<close> and \<open>conversion_success\<close> as they stand.
\<close>

fun date_loop ::
  "env \<Rightarrow> person list \<Rightarrow> nat \<Rightarrow> pystr list \<Rightarrow> path list \<times> path list \<times> bool
     \<Rightarrow> call list \<times> (exn + path list \<times> path list \<times> bool)" where
  "date_loop E visitors i [] st = ([], Inr st)"
| "date_loop E visitors i (date_entry # rest) (docx_files, pdf_files, conversion_success) =
     (case convert_to_hijri E date_entry of
        Inl e \<Rightarrow> ([], Inl (on_value_error E e))
      | Inr date_info \<Rightarrow>
          (let docx_file = Temp (docx_name i);
               pdf_file = Temp (pdf_name i)
           in case process_document E date_info visitors Template docx_file of
                (tr, Inl e) \<Rightarrow> (tr, Inl (on_value_error E e))
              | (tr, Inr doc) \<Rightarrow>
                  (let docx_files = docx_files @ [docx_file];
                       st = (if convert_to_pdf E docx_file pdf_file
                             then (docx_files, pdf_files @ [pdf_file], conversion_success)
                             else (docx_files, pdf_files, False))
                   in case date_loop E visitors (Suc i) rest st of
                        (tr', r) \<Rightarrow> (tr @ [Unoconv docx_file pdf_file] @ tr', r))))"

definition failed_to_generate :: exn where
  "failed_to_generate = HTTPException 500 (ascii ''Failed to generate documents'')"

definition final_pdf_path :: path where
  "final_pdf_path = Output (ascii ''getpass.pdf'')"

definition final_docx_path :: path where
  "final_docx_path = Output (ascii ''getpass.docx'')"

definition zip_path :: path where
  "zip_path = Output (ascii ''getpass_documents.zip'')"

definition pdf_response :: response where
  "pdf_response = FileResponse final_pdf_path (ascii ''getpass.pdf'') (ascii ''application/pdf'')"

definition docx_response :: response where
  "docx_response = FileResponse final_docx_path (ascii ''getpass.docx'')
     (ascii ''application/vnd.openxmlformats-officedocument.wordprocessingml.document'')"

definition zip_response :: response where
  "zip_response = FileResponse zip_path (ascii ''getpass_documents.zip'') (ascii ''application/zip'')"

text \<open>
  Lines 515 to 536, entered with \<open>conversion_success\<close> false: the single Word document,
  else the ZIP; when the ZIP fails the final \<open>raise\<close> is reached.
\<close>

definition word_fallback :: "env \<Rightarrow> path list \<Rightarrow> call list \<times> (exn + response)" where
  "word_fallback E docx_files =
     (if length docx_files = 1 then
        (case copy_file E (docx_files ! 0) final_docx_path of
           Some e \<Rightarrow> ([Copy (docx_files ! 0) final_docx_path], Inl e)
         | None \<Rightarrow> ([Copy (docx_files ! 0) final_docx_path], Inr docx_response))
      else if create_docx_zip E docx_files zip_path then
        ([Zip docx_files zip_path], Inr zip_response)
      else
        ([Zip docx_files zip_path], Inl failed_to_generate))"

text \<open>Lines 487 to 536: the output directory, then the branches in the order written.\<close>

definition consolidate ::
  "env \<Rightarrow> path list \<Rightarrow> path list \<Rightarrow> bool \<Rightarrow> call list \<times> (exn + response)" where
  "consolidate E docx_files pdf_files conversion_success =
     (case makedirs E OutputDir of
        Some e \<Rightarrow> ([MakeDirs OutputDir], Inl e)
      | None \<Rightarrow>
          if conversion_success \<and> length pdf_files > 1 then
            (if merge_pdfs E pdf_files final_pdf_path then
               ([MakeDirs OutputDir, PdfMerge pdf_files final_pdf_path], Inr pdf_response)
             else
               (case word_fallback E docx_files of
                  (tr, r) \<Rightarrow> ([MakeDirs OutputDir, PdfMerge pdf_files final_pdf_path] @ tr, r)))
          else if conversion_success \<and> length pdf_files = 1 then
            (case copy_file E (pdf_files ! 0) final_pdf_path of
               Some e \<Rightarrow> ([MakeDirs OutputDir, Copy (pdf_files ! 0) final_pdf_path], Inl e)
             | None \<Rightarrow> ([MakeDirs OutputDir, Copy (pdf_files ! 0) final_pdf_path], Inr pdf_response))
          else if \<not> conversion_success then
            (case word_fallback E docx_files of
               (tr, r) \<Rightarrow> ([MakeDirs OutputDir] @ tr, r))
          else
            ([MakeDirs OutputDir], Inl failed_to_generate))"

text \<open>Lines 456 to 536: the body of the outer \<open>try\<close>.\<close>

definition try_body :: "env \<Rightarrow> get_pass_data \<Rightarrow> call list \<times> (exn + response)" where
  "try_body E data =
     (case date_loop E (people data) 0 (dates data) ([], [], True) of
        (tr, Inl e) \<Rightarrow> (tr, Inl e)
      | (tr, Inr (docx_files, pdf_files, conversion_success)) \<Rightarrow>
          (case consolidate E docx_files pdf_files conversion_success of
             (tr', r) \<Rightarrow> (tr @ tr', r)))"

text \<open>
  Lines 538 to 540, \<open>except Exception as e\<close>: every exception that leaves the body, the
  \<open>HTTPException\<close>s raised in it among them (\<open>HTTPException\<close> is a subclass of \<open>Exception\<close>),
  is replaced by an \<open>HTTPException\<close> of status 500, which is the response.
\<close>

definition generate_getpass :: "env \<Rightarrow> get_pass_data \<Rightarrow> call list \<times> response" where
  "generate_getpass E data =
     (case try_body E data of
        (tr, Inl e) \<Rightarrow> (tr, HTTPError 500 (ascii ''Internal Server Error: '' @ exn_str E e))
      | (tr, Inr resp) \<Rightarrow> (tr, resp))"

section \<open>Example inputs\<close>

text \<open>
  Three visitors, a template with two tables (the second one has a header row and one
  further row, three columns wide), and an environment in which every external call
  succeeds. Its date parser knows three dates; its calendar conversion knows
  1 January 2024 (19 Jumada II 1445) and 7 January 2024 (25 Jumada II 1445) and raises
  otherwise, as hijri-converter does for a date outside its range (1 August 1924 to
  16 November 2077); \<open>str()\<close> of an
  \<open>HTTPException\<close> is its status code, a colon and its detail.
\<close>

definition ali :: person where
  "ali = \<lparr>name = ascii ''Ali'', nationality = ascii ''SA'', id_number = ascii ''1001''\<rparr>"

definition badr :: person where
  "badr = \<lparr>name = ascii '' Badr '', nationality = ascii ''EG'', id_number = ascii ''1002''\<rparr>"

definition chen :: person where
  "chen = \<lparr>name = ascii ''Chen'', nationality = ascii ''CN'', id_number = ascii ''1003''\<rparr>"

definition plain_cell :: "pystr \<Rightarrow> cell" where
  "plain_cell s =
     \<lparr>paragraphs = [\<lparr>runs = [\<lparr>run_text = s, font_name = None, font_size = None, bold = None\<rparr>],
                      alignment = None\<rparr>]\<rparr>"

definition example_template :: document where
  "example_template =
     \<lparr>tables =
        [\<lparr>grid_cols = 2,
          rows = [[plain_cell (visitor_key 1), plain_cell (ascii ''[D]/[M]/[Y]'')]]\<rparr>,
         \<lparr>grid_cols = 3,
          rows = [[plain_cell (ascii ''id''), plain_cell (ascii ''nat''), plain_cell (ascii ''name'')],
                  [empty_cell, empty_cell, empty_cell]]\<rparr>],
      settings = []\<rparr>"

definition example_date_info :: "pystr \<times> pystr \<times> pystr" where
  "example_date_info = (ascii ''19/06/1445'', ARABIC_DAY_NAMES ! 1, ascii ''01/01/2024'')"

definition example_env :: env where
  "example_env =
     \<lparr>fromisoformat =
        (\<lambda>s. if s = ascii ''2024-01-01'' then Some \<lparr>year = 2024, month = 1, day = 1\<rparr>
              else if s = ascii ''2024-01-07'' then Some \<lparr>year = 2024, month = 1, day = 7\<rparr>
              else if s = ascii ''1900-01-01'' then Some \<lparr>year = 1900, month = 1, day = 1\<rparr>
              else None),
      to_hijri =
        (\<lambda>y m d. if (y, m, d) = (2024, 1, 1) then Some \<lparr>hyear = 1445, hmonth = 6, hday = 19\<rparr>
                  else if (y, m, d) = (2024, 1, 7) then Some \<lparr>hyear = 1445, hmonth = 6, hday = 25\<rparr>
                  else None),
      copy_file = (\<lambda>src dst. None),
      open_docx = (\<lambda>p. Inr example_template),
      oxml_fault = (\<lambda>d. None),
      save_docx = (\<lambda>p. None),
      unoconv = (\<lambda>src dst. Inr (0, True)),
      pdf_merge = (\<lambda>ps dst. None),
      zip_write = (\<lambda>ps dst. None),
      makedirs = (\<lambda>p. None),
      http_str = (\<lambda>code detail. dec code @ ascii '': '' @ detail)\<rparr>"

text \<open>The same environment, except that PyPDF2 raises while merging.\<close>

definition merge_fails_env :: env where
  "merge_fails_env = example_env\<lparr>pdf_merge := (\<lambda>ps dst. Some (OtherError (ascii ''EOF marker not found'')))\<rparr>"

section \<open>The date converter\<close>

lemma length_day_names: "length ARABIC_DAY_NAMES = 7"
  by (simp add: ARABIC_DAY_NAMES_def)

lemma get_day_name: "get ARABIC_DAY_NAMES (k mod 7) = Inr (ARABIC_DAY_NAMES ! (k mod 7))"
  by (simp add: get_def length_day_names)

lemma weekday_less_7: "weekday d < 7"
  by (simp add: weekday_def)

lemma weekday_isoweekday: "(weekday d + 1) mod 7 = isoweekday d mod 7"
proof -
  have "((toordinal d + 6) mod 7 + 1) mod 7 = (toordinal d + 6 + 1) mod 7"
    by (rule mod_add_left_eq)
  also have "\<dots> = (toordinal d + 7) mod 7" by simp
  also have "\<dots> = toordinal d mod 7" by simp
  finally show ?thesis by (simp add: weekday_def isoweekday_def)
qed

lemma day_name_monday_first:
  assumes "w < 7"
  shows "ARABIC_DAY_NAMES ! ((w + 1) mod 7) =
           [[1575, 1604, 1573, 1579, 1606, 1610, 1606],
                 [1575, 1604, 1579, 1604, 1575, 1579, 1575, 1569],
                 [1575, 1604, 1571, 1585, 1576, 1593, 1575, 1569],
                 [1575, 1604, 1582, 1605, 1610, 1587],
                 [1575, 1604, 1580, 1605, 1593, 1577],
                 [1575, 1604, 1587, 1576, 1578],
                 [1575, 1604, 1571, 1581, 1583]] ! w"
proof -
  from assms have "w = 0 \<or> w = 1 \<or> w = 2 \<or> w = 3 \<or> w = 4 \<or> w = 5 \<or> w = 6"
    by arith
  then show ?thesis
    by (elim disjE) (simp_all add: ARABIC_DAY_NAMES_def)
qed

lemma convert_to_hijri_parsed:
  assumes "fromisoformat E (py_replace (ascii ''Z'') (ascii ''+00:00'') date_str) = Some date_obj"
  shows "convert_to_hijri E date_str =
           (case to_hijri E (year date_obj) (month date_obj) (day date_obj) of
              None \<Rightarrow> Inl (invalid_date date_str)
            | Some h \<Rightarrow>
                Inr (fmt_02d (hday h) @ ascii ''/'' @ fmt_02d (hmonth h) @ ascii ''/'' @ dec (hyear h),
                     ARABIC_DAY_NAMES ! ((weekday date_obj + 1) mod 7),
                     fmt_02d (day date_obj) @ ascii ''/'' @ fmt_02d (month date_obj) @ ascii ''/''
                       @ dec (year date_obj)))"
  using assms by (simp add: convert_to_hijri_def get_day_name Let_def split: option.splits)

lemma weekday_examples:
  "weekday \<lparr>year = 2024, month = 1, day = 1\<rparr> = 0"
  "weekday \<lparr>year = 2024, month = 1, day = 7\<rparr> = 6"
  "weekday \<lparr>year = 1900, month = 1, day = 1\<rparr> = 0"
  "isoweekday \<lparr>year = 2024, month = 1, day = 1\<rparr> = 1"
  by (simp_all add: weekday_def isoweekday_def toordinal_def days_before_year_def
      days_before_month_def is_leap_def)

lemma parse_examples:
  "fromisoformat example_env (py_replace (ascii ''Z'') (ascii ''+00:00'') (ascii ''2024-01-01''))
     = Some \<lparr>year = 2024, month = 1, day = 1\<rparr>"
  "fromisoformat example_env (py_replace (ascii ''Z'') (ascii ''+00:00'') (ascii ''2024-01-07''))
     = Some \<lparr>year = 2024, month = 1, day = 7\<rparr>"
  "fromisoformat example_env (py_replace (ascii ''Z'') (ascii ''+00:00'') (ascii ''1900-01-01''))
     = Some \<lparr>year = 1900, month = 1, day = 1\<rparr>"
  by code_simp+

lemma example_conversion:
  "convert_to_hijri example_env (ascii ''2024-01-01'') =
     Inr (ascii ''19/06/1445'', [1575, 1604, 1573, 1579, 1606, 1610, 1606], ascii ''01/01/2024'')"
  unfolding convert_to_hijri_parsed [OF parse_examples(1)] weekday_examples by code_simp

lemma example_conversion_7:
  "convert_to_hijri example_env (ascii ''2024-01-07'') =
     Inr (ascii ''25/06/1445'', [1575, 1604, 1571, 1581, 1583], ascii ''07/01/2024'')"
  unfolding convert_to_hijri_parsed [OF parse_examples(2)] weekday_examples by code_simp

text \<open>
  Counterexample for C6 (the claim: the name is the table entry at the index
  \<open>(ISO weekday + 1) mod 7\<close>). 1 January 2024 is a Monday, of ISO weekday 1; the converter
  returns the entry of index 1, the Arabic name of Monday, while the entry of index
  \<open>(1 + 1) mod 7\<close> is the name of Tuesday.
\<close>

theorem iso_weekday_index_counterexample:
  "convert_to_hijri example_env (ascii ''2024-01-01'') =
     Inr (ascii ''19/06/1445'', [1575, 1604, 1573, 1579, 1606, 1610, 1606], ascii ''01/01/2024'')
   \<and> isoweekday \<lparr>year = 2024, month = 1, day = 1\<rparr> = 1
   \<and> ARABIC_DAY_NAMES ! ((isoweekday \<lparr>year = 2024, month = 1, day = 1\<rparr> + 1) mod 7) =
       [1575, 1604, 1579, 1604, 1575, 1579, 1575, 1569]
   \<and> [1575, 1604, 1573, 1579, 1606, 1610, 1606] \<noteq> ([1575, 1604, 1579, 1604, 1575, 1579, 1575, 1569] :: nat list)"
proof -
  have "convert_to_hijri example_env (ascii ''2024-01-01'') =
          Inr (ascii ''19/06/1445'', [1575, 1604, 1573, 1579, 1606, 1610, 1606], ascii ''01/01/2024'')"
    unfolding convert_to_hijri_parsed [OF parse_examples(1)] weekday_examples by code_simp
  moreover have "ARABIC_DAY_NAMES ! ((isoweekday \<lparr>year = 2024, month = 1, day = 1\<rparr> + 1) mod 7) =
          [1575, 1604, 1579, 1604, 1575, 1579, 1575, 1569]"
    unfolding weekday_examples by code_simp
  moreover have "[1575, 1604, 1573, 1579, 1606, 1610, 1606] \<noteq> ([1575, 1604, 1579, 1604, 1575, 1579, 1575, 1569] :: nat list)"
    by simp
  ultimately show ?thesis
    using weekday_examples(4) by blast
qed

text \<open>
  Claim C6, amended. For every date string that parses to a calendar date \<open>date_obj\<close>,
  \<open>convert_to_hijri\<close> fails with the invalid-date-format error when the Hijri conversion
  of that date raises, and otherwise returns its triple, whose weekday name is the entry
  of \<open>ARABIC_DAY_NAMES\<close> at the index \<open>(date_obj.weekday() + 1) mod 7\<close>, with Python's
  \<open>weekday()\<close> (Monday is 0, Sunday is 6). That index is the ISO weekday modulo 7, and the
  entry is the Arabic name of the day of the week of the date: in the order Monday,
  Tuesday, Wednesday, Thursday, Friday, Saturday, Sunday the names are the seven
  strings of the last line.
\<close>

theorem weekday_name_from_table:
  assumes "fromisoformat E (py_replace (ascii ''Z'') (ascii ''+00:00'') date_str) = Some date_obj"
  shows "convert_to_hijri E date_str =
           (case to_hijri E (year date_obj) (month date_obj) (day date_obj) of
              None \<Rightarrow> Inl (invalid_date date_str)
            | Some h \<Rightarrow>
                Inr (fmt_02d (hday h) @ ascii ''/'' @ fmt_02d (hmonth h) @ ascii ''/'' @ dec (hyear h),
                     ARABIC_DAY_NAMES ! ((weekday date_obj + 1) mod 7),
                     fmt_02d (day date_obj) @ ascii ''/'' @ fmt_02d (month date_obj) @ ascii ''/''
                       @ dec (year date_obj)))
         \<and> (weekday date_obj + 1) mod 7 = isoweekday date_obj mod 7
         \<and> ARABIC_DAY_NAMES ! ((weekday date_obj + 1) mod 7) =
               [[1575, 1604, 1573, 1579, 1606, 1610, 1606],
                 [1575, 1604, 1579, 1604, 1575, 1579, 1575, 1569],
                 [1575, 1604, 1571, 1585, 1576, 1593, 1575, 1569],
                 [1575, 1604, 1582, 1605, 1610, 1587],
                 [1575, 1604, 1580, 1605, 1593, 1577],
                 [1575, 1604, 1587, 1576, 1578],
                 [1575, 1604, 1571, 1581, 1583]] ! weekday date_obj"
proof (intro conjI)
  show "convert_to_hijri E date_str =
           (case to_hijri E (year date_obj) (month date_obj) (day date_obj) of
              None \<Rightarrow> Inl (invalid_date date_str)
            | Some h \<Rightarrow>
                Inr (fmt_02d (hday h) @ ascii ''/'' @ fmt_02d (hmonth h) @ ascii ''/'' @ dec (hyear h),
                     ARABIC_DAY_NAMES ! ((weekday date_obj + 1) mod 7),
                     fmt_02d (day date_obj) @ ascii ''/'' @ fmt_02d (month date_obj) @ ascii ''/''
                       @ dec (year date_obj)))"
    using assms by (rule convert_to_hijri_parsed)
  show "(weekday date_obj + 1) mod 7 = isoweekday date_obj mod 7"
    by (rule weekday_isoweekday)
  show "ARABIC_DAY_NAMES ! ((weekday date_obj + 1) mod 7) =
               [[1575, 1604, 1573, 1579, 1606, 1610, 1606],
                 [1575, 1604, 1579, 1604, 1575, 1579, 1575, 1569],
                 [1575, 1604, 1571, 1585, 1576, 1593, 1575, 1569],
                 [1575, 1604, 1582, 1605, 1610, 1587],
                 [1575, 1604, 1580, 1605, 1593, 1577],
                 [1575, 1604, 1587, 1576, 1578],
                 [1575, 1604, 1571, 1581, 1583]] ! weekday date_obj"
    by (rule day_name_monday_first [OF weekday_less_7])
qed

text \<open>
  Witness for the amended C6: 1 January 2024, a Monday, gets the Arabic name of Monday;
  7 January 2024, a Sunday (\<open>weekday()\<close> is 6, the index wraps to 0), gets the name of
  Sunday; 1 January 1900 parses, and gets no name but the error.
\<close>

theorem weekday_name_from_table_witness:
  "convert_to_hijri example_env (ascii ''2024-01-01'') =
     Inr (ascii ''19/06/1445'', [1575, 1604, 1573, 1579, 1606, 1610, 1606], ascii ''01/01/2024'')
   \<and> convert_to_hijri example_env (ascii ''2024-01-07'') =
     Inr (ascii ''25/06/1445'', [1575, 1604, 1571, 1581, 1583], ascii ''07/01/2024'')
   \<and> convert_to_hijri example_env (ascii ''1900-01-01'') =
     Inl (invalid_date (ascii ''1900-01-01''))"
proof -
  note c1 = conjunct1 [OF weekday_name_from_table [OF parse_examples(1)]]
  note c7 = conjunct1 [OF weekday_name_from_table [OF parse_examples(2)]]
  note c0 = conjunct1 [OF weekday_name_from_table [OF parse_examples(3)]]
  have "convert_to_hijri example_env (ascii ''2024-01-01'') =
          Inr (ascii ''19/06/1445'', [1575, 1604, 1573, 1579, 1606, 1610, 1606], ascii ''01/01/2024'')"
    unfolding c1 weekday_examples by code_simp
  moreover have "convert_to_hijri example_env (ascii ''2024-01-07'') =
          Inr (ascii ''25/06/1445'', [1575, 1604, 1571, 1581, 1583], ascii ''07/01/2024'')"
    unfolding c7 weekday_examples by code_simp
  moreover have "convert_to_hijri example_env (ascii ''1900-01-01'') =
          Inl (invalid_date (ascii ''1900-01-01''))"
    unfolding c0 weekday_examples by code_simp
  ultimately show ?thesis by blast
qed

text \<open>
  Counterexample for C5 (the claim: the converter fails exactly when the string cannot
  be parsed). The string \<open>1900-01-01\<close> parses as a calendar date, the calendar conversion
  raises for it, and the handler turns that into the same invalid-date-format error.
\<close>

theorem convert_to_hijri_range_counterexample:
  "fromisoformat example_env (py_replace (ascii ''Z'') (ascii ''+00:00'') (ascii ''1900-01-01''))
      = Some \<lparr>year = 1900, month = 1, day = 1\<rparr>
   \<and> convert_to_hijri example_env (ascii ''1900-01-01'')
      = Inl (ValueError (ascii ''Invalid date format: 1900-01-01''))"
proof -
  have "convert_to_hijri example_env (ascii ''1900-01-01'')
          = Inl (ValueError (ascii ''Invalid date format: 1900-01-01''))"
    unfolding convert_to_hijri_parsed [OF parse_examples(3)] weekday_examples by code_simp
  with parse_examples(3) show ?thesis by blast
qed

text \<open>
  Claim C5, amended. \<open>convert_to_hijri\<close> fails exactly when the date string cannot be
  parsed or the Hijri conversion of the parsed date raises; whenever it fails, the error
  is the invalid-date-format \<open>ValueError\<close> carrying the string; in every other case it
  returns its triple.
\<close>

theorem convert_to_hijri_fails_iff:
  "isl (convert_to_hijri E date_str) =
     (case fromisoformat E (py_replace (ascii ''Z'') (ascii ''+00:00'') date_str) of
        None \<Rightarrow> True
      | Some date_obj \<Rightarrow> to_hijri E (year date_obj) (month date_obj) (day date_obj) = None)
   \<and> (isl (convert_to_hijri E date_str) \<longrightarrow>
        convert_to_hijri E date_str = Inl (invalid_date date_str))"
  by (simp add: convert_to_hijri_def get_day_name Let_def split: option.splits)

text \<open>Witness for the amended C5: a string that does not parse.\<close>

theorem convert_to_hijri_fails_iff_witness:
  "isl (convert_to_hijri example_env (ascii ''not-a-date'')) \<and>
   convert_to_hijri example_env (ascii ''not-a-date'') = Inl (invalid_date (ascii ''not-a-date''))"
proof -
  have "isl (convert_to_hijri example_env (ascii ''not-a-date''))" by code_simp
  with convert_to_hijri_fails_iff [of example_env "ascii ''not-a-date''"] show ?thesis by simp
qed

section \<open>The placeholder map\<close>

lemma map_of_dict_set: "map_of (dict_set k v d) = (map_of d)(k \<mapsto> v)"
  by (induction d) auto

lemma dict_update_Nil: "dict_update d [] = d"
  by (simp add: dict_update_def)

lemma dict_update_Cons: "dict_update d (kv # kvs) = dict_update (dict_set (fst kv) (snd kv) d) kvs"
  by (simp add: dict_update_def)

lemma dec_digit: "n < 10 \<Longrightarrow> dec n = [48 + n]"
  by (simp add: dec.simps)

lemma dec_1: "dec 1 = [49]" "dec (Suc 0) = [49]" "dec 2 = [50]" "dec (Suc (Suc 0)) = [50]" "dec (Suc 1) = [50]"
  by (simp_all add: dec.simps)

lemmas key_defs = visitor_key_def id_key_def nationality_key_def first_key_def last_key_def
  count_key_def day_key_def ascii_def

lemma bind_exn_Inr_iff: "bind_exn m f = Inr y \<longleftrightarrow> (\<exists>x. m = Inr x \<and> f x = Inr y)"
  by (cases m) (simp_all add: bind_exn_def)

lemma replacements_of_one:
  assumes "replacements_of date_info [p] = Inr r"
  shows "map_of r (visitor_key 1) = Some (name p)"
    "map_of r (id_key 1) = Some (id_number p)"
    "map_of r (nationality_key 1) = Some (nationality p)"
    "map_of r (visitor_key 2) = Some []"
    "map_of r (id_key 2) = Some []"
    "map_of r (nationality_key 2) = Some []"
    "map_of r first_key = Some []"
    "map_of r last_key = Some []"
    "map_of r count_key = Some (count_label (length [p]))"
  using assms
  by (auto simp: replacements_of_def bind_exn_Inr_iff Let_def get_def dict_update_Nil dict_update_Cons
      map_of_dict_set key_defs dec_1 split: prod.splits if_splits)

lemma enumerate_two: "enumerate 1 [a, b] = [(1, a), (2, b)]"
  by (simp add: enumerate_eq_zip upt_rec)

lemma replacements_of_two:
  assumes "replacements_of date_info [p, q] = Inr r"
  shows "map_of r (visitor_key 1) = Some (name p)"
    "map_of r (id_key 1) = Some (id_number p)"
    "map_of r (nationality_key 1) = Some (nationality p)"
    "map_of r (visitor_key 2) = Some (name q)"
    "map_of r (id_key 2) = Some (id_number q)"
    "map_of r (nationality_key 2) = Some (nationality q)"
    "map_of r first_key = Some []"
    "map_of r last_key = Some []"
    "map_of r count_key = Some (count_label (length [p, q]))"
  using assms
  by (auto simp: replacements_of_def bind_exn_Inr_iff Let_def get_def dict_update_Nil dict_update_Cons
      enumerate_two map_of_dict_set key_defs dec_1 split: prod.splits if_splits)

lemma replacements_of_many:
  assumes "replacements_of date_info visitors = Inr r" and "2 < length visitors"
  shows "map_of r (visitor_key 1) = Some []"
    "map_of r (id_key 1) = Some []"
    "map_of r (nationality_key 1) = Some []"
    "map_of r (visitor_key 2) = Some []"
    "map_of r (id_key 2) = Some []"
    "map_of r (nationality_key 2) = Some []"
    "map_of r first_key = Some (name (visitors ! 0))"
    "map_of r last_key = Some (name (last visitors))"
    "map_of r count_key = Some (count_label (length visitors))"
  using assms
  by (auto simp: replacements_of_def bind_exn_Inr_iff Let_def get_def get_last_def dict_update_Nil
      dict_update_Cons map_of_dict_set key_defs dec_1 split: prod.splits if_splits)


lemma replacements_of_nonempty:
  assumes "replacements_of date_info visitors = Inr r"
  shows "visitors \<noteq> []"
  using assms
  by (auto simp: replacements_of_def bind_exn_Inr_iff Let_def get_def get_last_def split: prod.splits if_splits)

lemma length_one: "length xs = 1 \<Longrightarrow> xs = [xs ! 0]"
  by (cases xs) auto

lemma length_two: "length xs = 2 \<Longrightarrow> xs = [xs ! 0, xs ! 1]"
  by (cases xs; cases "tl xs") auto






lemma dec_nonempty: "0 < length (dec n)"
  by (subst dec.simps) simp

lemma fmt_02d_below_100:
  assumes "n < 100"
  shows "fmt_02d n = [48 + n div 10, 48 + n mod 10]"
proof (cases "n < 10")
  case True
  then show ?thesis by (simp add: fmt_02d_def dec_digit)
next
  case False
  with assms have "n div 10 < 10" by simp
  then have "dec (n div 10) = [48 + n div 10]" by (rule dec_digit)
  with False have "dec n = [48 + n div 10, 48 + n mod 10]" by (subst dec.simps) simp
  then show ?thesis by (simp add: fmt_02d_def)
qed

lemma dec_from_100:
  assumes "100 \<le> n"
  shows "2 < length (dec n)"
proof -
  from assms have a: "\<not> n < 10" and b: "\<not> n div 10 < 10" by simp_all
  have "dec n = dec (n div 10 div 10) @ [48 + n div 10 mod 10] @ [48 + n mod 10]"
    using a b by (subst dec.simps, subst dec.simps) simp
  then show ?thesis using dec_nonempty [of "n div 10 div 10"] by simp
qed

lemma fmt_02d_from_100: "100 \<le> n \<Longrightarrow> fmt_02d n = dec n"
  using dec_from_100 [of n] by (simp add: fmt_02d_def)

lemma replacements_of_count:
  assumes "replacements_of date_info visitors = Inr r"
  shows "map_of r count_key = Some (count_label (length visitors))"
proof -
  consider "length visitors = 1" | "length visitors = 2" | "2 < length visitors"
    using replacements_of_nonempty [OF assms] by (cases visitors; cases "tl visitors"; cases "tl (tl visitors)") auto
  then show ?thesis
  proof cases
    case 1
    then have v: "visitors = [visitors ! 0]" by (rule length_one)
    from assms v have "replacements_of date_info [visitors ! 0] = Inr r" by simp
    from replacements_of_one(9) [OF this] 1 show ?thesis by simp
  next
    case 2
    then have v: "visitors = [visitors ! 0, visitors ! 1]" by (rule length_two)
    from assms v have "replacements_of date_info [visitors ! 0, visitors ! 1] = Inr r" by simp
    from replacements_of_two(9) [OF this] 2 show ?thesis by (simp add: numeral_2_eq_2)
  next
    case 3
    from replacements_of_many(9) [OF assms 3] show ?thesis .
  qed
qed

lemma replacements_of_total:
  assumes "2 < length (py_split 47 h)" and "2 < length (py_split 47 g)" and "visitors \<noteq> []"
  shows "\<not> isl (replacements_of (h, dn, g) visitors)"
  using assms
  by (cases visitors) (auto simp: replacements_of_def bind_exn_def get_def get_last_def Let_def)

lemma example_date_parts:
  "length (py_split 47 (ascii ''19/06/1445'')) = 3"
  "length (py_split 47 (ascii ''01/01/2024'')) = 3"
  by code_simp+

lemma example_replacements:
  assumes "visitors \<noteq> []"
  shows "replacements_of example_date_info visitors
           = Inr (projr (replacements_of example_date_info visitors))"
proof -
  have "\<not> isl (replacements_of example_date_info visitors)"
    unfolding example_date_info_def
    by (rule replacements_of_total) (simp_all add: example_date_parts assms)
  then show ?thesis by simp
qed



lemma hundred_nonempty: "replicate 100 ali \<noteq> []"
  by simp

text \<open>
  Claim C2. Whenever \<open>process_document\<close> builds its placeholder map \<open>r\<close> for a list of
  visitors: with exactly one visitor, slot 1 (name, id, nationality) holds that
  visitor's fields and slot 2 and the first-name and last-name placeholders are empty,
  and the second table is left alone; with exactly two, slots 1 and 2 hold the two
  visitors in list order and the first-name and last-name placeholders are empty, and
  the second table is left alone; with more than two, both slots are empty, the
  first-name placeholder is the name of the first visitor of the list, the last-name
  placeholder the name of the last one, and the rows of the second table are written.
\<close>

theorem placeholder_count_rules:
  assumes "replacements_of date_info visitors = Inr r"
  shows "(length visitors = 1 \<longrightarrow>
            map_of r (visitor_key 1) = Some (name (visitors ! 0)) \<and>
            map_of r (id_key 1) = Some (id_number (visitors ! 0)) \<and>
            map_of r (nationality_key 1) = Some (nationality (visitors ! 0)) \<and>
            map_of r (visitor_key 2) = Some [] \<and>
            map_of r (id_key 2) = Some [] \<and>
            map_of r (nationality_key 2) = Some [] \<and>
            map_of r first_key = Some [] \<and>
            map_of r last_key = Some [] \<and>
            write_overflow visitors doc = Inr doc)
       \<and> (length visitors = 2 \<longrightarrow>
            map_of r (visitor_key 1) = Some (name (visitors ! 0)) \<and>
            map_of r (id_key 1) = Some (id_number (visitors ! 0)) \<and>
            map_of r (nationality_key 1) = Some (nationality (visitors ! 0)) \<and>
            map_of r (visitor_key 2) = Some (name (visitors ! 1)) \<and>
            map_of r (id_key 2) = Some (id_number (visitors ! 1)) \<and>
            map_of r (nationality_key 2) = Some (nationality (visitors ! 1)) \<and>
            map_of r first_key = Some [] \<and>
            map_of r last_key = Some [] \<and>
            write_overflow visitors doc = Inr doc)
       \<and> (2 < length visitors \<longrightarrow>
            map_of r (visitor_key 1) = Some [] \<and>
            map_of r (id_key 1) = Some [] \<and>
            map_of r (nationality_key 1) = Some [] \<and>
            map_of r (visitor_key 2) = Some [] \<and>
            map_of r (id_key 2) = Some [] \<and>
            map_of r (nationality_key 2) = Some [] \<and>
            map_of r first_key = Some (name (visitors ! 0)) \<and>
            map_of r last_key = Some (name (last visitors)) \<and>
            write_overflow visitors doc =
              bind_exn (get (tables doc) 1) (\<lambda>t.
              bind_exn (write_rows 1 visitors t) (\<lambda>t'.
                Inr (doc\<lparr>tables := (tables doc)[1 := t']\<rparr>))))"
proof (intro conjI impI)
  assume l: "length visitors = 1"
  then have v: "visitors = [visitors ! 0]" by (rule length_one)
  from assms v have a: "replacements_of date_info [visitors ! 0] = Inr r" by simp
  show "map_of r (visitor_key 1) = Some (name (visitors ! 0))" using replacements_of_one(1) [OF a] .
  show "map_of r (id_key 1) = Some (id_number (visitors ! 0))" using replacements_of_one(2) [OF a] .
  show "map_of r (nationality_key 1) = Some (nationality (visitors ! 0))" using replacements_of_one(3) [OF a] .
  show "map_of r (visitor_key 2) = Some []" using replacements_of_one(4) [OF a] .
  show "map_of r (id_key 2) = Some []" using replacements_of_one(5) [OF a] .
  show "map_of r (nationality_key 2) = Some []" using replacements_of_one(6) [OF a] .
  show "map_of r first_key = Some []" using replacements_of_one(7) [OF a] .
  show "map_of r last_key = Some []" using replacements_of_one(8) [OF a] .
  show "write_overflow visitors doc = Inr doc" using l by (simp add: write_overflow_def)
next
  assume l: "length visitors = 2"
  then have v: "visitors = [visitors ! 0, visitors ! 1]" by (rule length_two)
  from assms v have a: "replacements_of date_info [visitors ! 0, visitors ! 1] = Inr r" by simp
  show "map_of r (visitor_key 1) = Some (name (visitors ! 0))" using replacements_of_two(1) [OF a] .
  show "map_of r (id_key 1) = Some (id_number (visitors ! 0))" using replacements_of_two(2) [OF a] .
  show "map_of r (nationality_key 1) = Some (nationality (visitors ! 0))" using replacements_of_two(3) [OF a] .
  show "map_of r (visitor_key 2) = Some (name (visitors ! 1))" using replacements_of_two(4) [OF a] .
  show "map_of r (id_key 2) = Some (id_number (visitors ! 1))" using replacements_of_two(5) [OF a] .
  show "map_of r (nationality_key 2) = Some (nationality (visitors ! 1))" using replacements_of_two(6) [OF a] .
  show "map_of r first_key = Some []" using replacements_of_two(7) [OF a] .
  show "map_of r last_key = Some []" using replacements_of_two(8) [OF a] .
  show "write_overflow visitors doc = Inr doc" using l by (simp add: write_overflow_def)
next
  assume l: "2 < length visitors"
  show "map_of r (visitor_key 1) = Some []" using replacements_of_many(1) [OF assms l] .
  show "map_of r (id_key 1) = Some []" using replacements_of_many(2) [OF assms l] .
  show "map_of r (nationality_key 1) = Some []" using replacements_of_many(3) [OF assms l] .
  show "map_of r (visitor_key 2) = Some []" using replacements_of_many(4) [OF assms l] .
  show "map_of r (id_key 2) = Some []" using replacements_of_many(5) [OF assms l] .
  show "map_of r (nationality_key 2) = Some []" using replacements_of_many(6) [OF assms l] .
  show "map_of r first_key = Some (name (visitors ! 0))" using replacements_of_many(7) [OF assms l] .
  show "map_of r last_key = Some (name (last visitors))" using replacements_of_many(8) [OF assms l] .
  show "write_overflow visitors doc =
              bind_exn (get (tables doc) 1) (\<lambda>t.
              bind_exn (write_rows 1 visitors t) (\<lambda>t'.
                Inr (doc\<lparr>tables := (tables doc)[1 := t']\<rparr>)))"
    using l by (simp add: write_overflow_def)
qed

text \<open>Witness for C2: the maps for one, two and three visitors.\<close>

theorem placeholder_count_rules_witness:
  "map_of (projr (replacements_of example_date_info [ali])) (visitor_key 1) = Some (ascii ''Ali'')
   \<and> map_of (projr (replacements_of example_date_info [ali])) (visitor_key 2) = Some []
   \<and> map_of (projr (replacements_of example_date_info [ali])) last_key = Some []
   \<and> write_overflow [ali] example_template = Inr example_template
   \<and> map_of (projr (replacements_of example_date_info [ali, badr])) (visitor_key 1) = Some (ascii ''Ali'')
   \<and> map_of (projr (replacements_of example_date_info [ali, badr])) (visitor_key 2) = Some (ascii '' Badr '')
   \<and> map_of (projr (replacements_of example_date_info [ali, badr])) first_key = Some []
   \<and> map_of (projr (replacements_of example_date_info [ali, badr, chen])) (visitor_key 1) = Some []
   \<and> map_of (projr (replacements_of example_date_info [ali, badr, chen])) (visitor_key 2) = Some []
   \<and> map_of (projr (replacements_of example_date_info [ali, badr, chen])) first_key = Some (ascii ''Ali'')
   \<and> map_of (projr (replacements_of example_date_info [ali, badr, chen])) last_key = Some (ascii ''Chen'')"
proof -
  have r1: "replacements_of example_date_info [ali] = Inr (projr (replacements_of example_date_info [ali]))"
    by (rule example_replacements) simp
  have r2: "replacements_of example_date_info [ali, badr]
              = Inr (projr (replacements_of example_date_info [ali, badr]))"
    by (rule example_replacements) simp
  have r3: "replacements_of example_date_info [ali, badr, chen]
              = Inr (projr (replacements_of example_date_info [ali, badr, chen]))"
    by (rule example_replacements) simp
  show ?thesis
    using placeholder_count_rules [OF r1, of example_template]
      placeholder_count_rules [OF r2, of example_template]
      placeholder_count_rules [OF r3, of example_template]
    by (simp add: ali_def badr_def chen_def)
qed

text \<open>
  Counterexample for C8 (the claim: the label embeds the count as a two-digit number).
  For a list of 100 visitors the map is built and the label embeds the three digits
  \<open>100\<close>.
\<close>

theorem count_label_counterexample:
  "\<not> isl (replacements_of example_date_info (replicate 100 ali))
   \<and> map_of (projr (replacements_of example_date_info (replicate 100 ali))) count_key
     = Some (count_label_prefix @ ascii ''100'' @ count_label_suffix)
   \<and> length (ascii ''100'') = 3"
proof -
  have d: "dec 100 = ascii ''100''" by code_simp
  have "map_of (projr (replacements_of example_date_info (replicate 100 ali))) count_key
          = Some (count_label (length (replicate 100 ali)))"
    by (rule replacements_of_count [OF example_replacements [OF hundred_nonempty]])
  moreover have "\<not> isl (replacements_of example_date_info (replicate 100 ali))"
    using example_replacements [OF hundred_nonempty] by (metis sum.disc(2))
  ultimately show ?thesis
    by (simp add: count_label_def fmt_02d_from_100 d) (simp add: ascii_def)
qed

text \<open>
  Claim C8, amended. Whenever the placeholder map is built, the visitor-count label
  placeholder maps to the fixed label string that embeds the visitor count in decimal,
  padded with zeros on the left to at least two digits, followed by the closing
  parenthesis, a space and the checkbox marker: exactly two digits, the tens and the
  units, for a count below 100, and all digits of the count, three or more, from 100 on.
\<close>

theorem count_label_padded:
  assumes "replacements_of date_info visitors = Inr r"
  shows "map_of r count_key
           = Some (count_label_prefix @ fmt_02d (length visitors) @ count_label_suffix)
       \<and> (length visitors < 100 \<longrightarrow>
            fmt_02d (length visitors) = [48 + length visitors div 10, 48 + length visitors mod 10])
       \<and> (100 \<le> length visitors \<longrightarrow>
            fmt_02d (length visitors) = dec (length visitors) \<and> 2 < length (dec (length visitors)))"
  using replacements_of_count [OF assms] fmt_02d_below_100 fmt_02d_from_100 dec_from_100
  by (simp add: count_label_def)

text \<open>Witness for the amended C8: three visitors give \<open>03\<close>, a hundred give \<open>100\<close>.\<close>

theorem count_label_padded_witness:
  "map_of (projr (replacements_of example_date_info [ali, badr, chen])) count_key
     = Some (count_label_prefix @ ascii ''03'' @ count_label_suffix)
   \<and> map_of (projr (replacements_of example_date_info (replicate 100 ali))) count_key
     = Some (count_label_prefix @ ascii ''100'' @ count_label_suffix)"
proof -
  have r3: "replacements_of example_date_info [ali, badr, chen]
              = Inr (projr (replacements_of example_date_info [ali, badr, chen]))"
    by (rule example_replacements) simp
  have d: "dec 100 = ascii ''100''" by code_simp
  have a: "map_of (projr (replacements_of example_date_info [ali, badr, chen])) count_key
     = Some (count_label_prefix @ ascii ''03'' @ count_label_suffix)"
    using count_label_padded [OF r3] by (simp add: ascii_def)
  have b: "map_of (projr (replacements_of example_date_info (replicate 100 ali))) count_key
     = Some (count_label_prefix @ ascii ''100'' @ count_label_suffix)"
    using count_label_padded [OF example_replacements [OF hundred_nonempty]] by (simp add: d)
  from a b show ?thesis by blast
qed

section \<open>Font embedding\<close>

text \<open>
  Claim C7. \<open>embed_fonts\<close> never raises: it returns a flag, true exactly when no call of
  its body raised, and leaves the tables of the document alone. Whatever the calls of
  the font embedding do (\<open>f\<close> is any behaviour of theirs, failing or not),
  \<open>process_document\<close> makes the same calls and ends the same way: with the same
  exception, or with a saved document that has the same tables.
\<close>

theorem font_embedding_advisory:
  "fst (embed_fonts E doc) = (oxml_fault E doc = None)
   \<and> tables (snd (embed_fonts E doc)) = tables doc
   \<and> fst (process_document (E\<lparr>oxml_fault := f\<rparr>) date_info visitors template_file output_file)
       = fst (process_document E date_info visitors template_file output_file)
   \<and> map_sum id tables
         (snd (process_document (E\<lparr>oxml_fault := f\<rparr>) date_info visitors template_file output_file))
       = map_sum id tables (snd (process_document E date_info visitors template_file output_file))"
proof (intro conjI)
  show "fst (embed_fonts E doc) = (oxml_fault E doc = None)"
    by (simp add: embed_fonts_def split: option.splits)
  show "tables (snd (embed_fonts E doc)) = tables doc"
    by (simp add: embed_fonts_def split: option.splits)
  have t: "\<And>E' d. tables (snd (embed_fonts E' d)) = tables d"
    by (simp add: embed_fonts_def split: option.splits)
  show "fst (process_document (E\<lparr>oxml_fault := f\<rparr>) date_info visitors template_file output_file)
       = fst (process_document E date_info visitors template_file output_file)"
    by (simp add: process_document_def bind_exn_def split: option.splits sum.splits)
  show "map_sum id tables
         (snd (process_document (E\<lparr>oxml_fault := f\<rparr>) date_info visitors template_file output_file))
       = map_sum id tables (snd (process_document E date_info visitors template_file output_file))"
    by (simp add: process_document_def bind_exn_def t split: option.splits sum.splits)
qed

section \<open>The endpoint\<close>

text \<open>
  Claim C1, at the request with one visitor and the single date \<open>not-a-date\<close>. The
  \<open>HTTPException\<close> of status 400 raised in the loop is caught by the outer handler, so
  the response has status 500; no call that writes a file is made.
\<close>

theorem malformed_date_responds_500:
  "generate_getpass example_env \<lparr>people = [ali], dates = [ascii ''not-a-date'']\<rparr> =
     ([], HTTPError 500
       (ascii ''Internal Server Error: 400: Invalid date format: Invalid date format: not-a-date''))"
  by code_simp

text \<open>
  Claim C10, at the request with one visitor and no date. Nothing is copied, saved or
  converted, the output directory is made, no branch returns, and the
  \<open>HTTPException\<close> of the last line is caught by the outer handler: the status is 500 and
  the detail is the handler's prefix followed by \<open>str()\<close> of that exception.
\<close>

theorem empty_dates_responds_wrapped_500:
  "generate_getpass example_env \<lparr>people = [ali], dates = []\<rparr> =
     ([MakeDirs OutputDir], HTTPError 500
       (ascii ''Internal Server Error: 500: Failed to generate documents''))"
  by code_simp

lemma py_split_nonempty: "py_split sep s \<noteq> []"
  by (induction s) (auto split: list.splits)

lemma length_py_split: "length (py_split sep s) = Suc (count_list s sep)"
  by (induction s) (auto split: list.splits simp: py_split_nonempty)

lemma convert_to_hijri_parts:
  assumes "convert_to_hijri E date_str = Inr date_info"
  shows "2 < length (py_split 47 (fst date_info))"
    and "2 < length (py_split 47 (snd (snd date_info)))"
  using assms
  by (auto simp: convert_to_hijri_def Let_def length_py_split ascii_def
      split: option.splits sum.splits)

lemma replacements_of_empty_isl: "isl (replacements_of date_info [])"
  by (cases date_info)
     (auto simp: replacements_of_def bind_exn_def get_def Let_def split: sum.splits)

lemma replacements_of_empty_index:
  assumes "2 < length (py_split 47 (fst date_info))"
    and "2 < length (py_split 47 (snd (snd date_info)))"
  shows "replacements_of date_info [] = Inl (IndexError (ascii ''list index out of range''))"
  using assms
  by (cases date_info)
     (auto simp: replacements_of_def bind_exn_def get_def Let_def py_split_nonempty)

lemma process_document_empty:
  "isl (snd (process_document E date_info [] template_file output_file))"
  "Save p \<notin> set (fst (process_document E date_info [] template_file output_file))"
  using replacements_of_empty_isl [of date_info]
  by (auto simp: process_document_def bind_exn_def split: option.splits sum.splits)

lemma process_document_empty_index:
  assumes "copy_file E template_file output_file = None"
    and "open_docx E output_file = Inr doc"
    and "2 < length (py_split 47 (fst date_info))"
    and "2 < length (py_split 47 (snd (snd date_info)))"
  shows "process_document E date_info [] template_file output_file =
           ([Copy template_file output_file], Inl (IndexError (ascii ''list index out of range'')))"
  using assms(1,2) replacements_of_empty_index [OF assms(3,4)]
  by (simp add: process_document_def bind_exn_def)


lemma date_loop_empty_people:
  "snd (date_loop E [] i ds st) = Inr st \<and> ds = [] \<and> fst (date_loop E [] i ds st) = []
   \<or> isl (snd (date_loop E [] i ds st)) \<and> (\<forall>p. Save p \<notin> set (fst (date_loop E [] i ds st)))"
proof (cases ds)
  case Nil
  then show ?thesis by simp
next
  case (Cons d rest)
  obtain docx_files pdf_files ok where st: "st = (docx_files, pdf_files, ok)"
    by (cases st) auto
  show ?thesis
  proof (cases "convert_to_hijri E d")
    case (Inl e)
    with Cons st show ?thesis by simp
  next
    case (Inr date_info)
    obtain tr r where pd: "process_document E date_info [] Template (Temp (docx_name i)) = (tr, r)"
      by (cases "process_document E date_info [] Template (Temp (docx_name i))") auto
    from process_document_empty
           [where E = E and date_info = date_info and template_file = Template
              and output_file = "Temp (docx_name i)"] pd
    have "isl r" and "\<And>p. Save p \<notin> set tr" by simp_all
    then obtain e where "r = Inl e" by (cases r) auto
    with Cons st Inr pd \<open>\<And>p. Save p \<notin> set tr\<close> show ?thesis by simp
  qed
qed

lemma consolidate_nothing:
  "\<exists>e. consolidate E [] [] True = ([MakeDirs OutputDir], Inl e)"
  by (simp add: consolidate_def split: option.splits)


text \<open>
  Claim C9. For a request with an empty list of people, whatever its dates, the
  endpoint responds with status 500 and no document is ever saved, and
  \<open>process_document\<close> raises for every date. When the first date converts and the
  template is copied and opened, the run ends at the first document: the count is not
  1 and not 2, so the last branch is taken, \<open>people[0]\<close> raises \<open>IndexError\<close> (before
  \<open>people[-1]\<close> is read), no handler of the loop catches it, and the response is the
  500 of the outer handler carrying the message of the \<open>IndexError\<close>.
\<close>

theorem empty_people_responds_500:
  assumes "people data = []"
  shows "(\<exists>detail. snd (generate_getpass E data) = HTTPError 500 detail)
       \<and> (\<forall>p. Save p \<notin> set (fst (generate_getpass E data)))
       \<and> isl (snd (process_document E date_info [] template_file output_file))
       \<and> (\<forall>d ds info doc.
            dates data = d # ds \<and> convert_to_hijri E d = Inr info
            \<and> copy_file E Template (Temp (docx_name 0)) = None
            \<and> open_docx E (Temp (docx_name 0)) = Inr doc \<longrightarrow>
            generate_getpass E data =
              ([Copy Template (Temp (docx_name 0))],
               HTTPError 500 (ascii ''Internal Server Error: list index out of range'')))"
proof (intro conjI allI impI)
  let ?l = "date_loop E [] 0 (dates data) ([], [], True)"
  from date_loop_empty_people [of E 0 "dates data" "([], [], True)"]
  consider (finished) "snd ?l = Inr ([], [], True)" "fst ?l = []"
    | (raised) "isl (snd ?l)" "\<forall>p. Save p \<notin> set (fst ?l)"
    by blast
  then have "(\<exists>detail. snd (generate_getpass E data) = HTTPError 500 detail)
       \<and> (\<forall>p. Save p \<notin> set (fst (generate_getpass E data)))"
  proof cases
    case finished
    obtain e where "consolidate E [] [] True = ([MakeDirs OutputDir], Inl e)"
      using consolidate_nothing by blast
    with finished assms show ?thesis
      by (cases ?l) (simp add: generate_getpass_def try_body_def)
  next
    case raised
    then obtain tr e where "?l = (tr, Inl e)"
      by (cases ?l; cases "snd ?l") auto
    with raised assms show ?thesis
      by (simp add: generate_getpass_def try_body_def)
  qed
  then show "\<exists>detail. snd (generate_getpass E data) = HTTPError 500 detail"
    and "\<And>p. Save p \<notin> set (fst (generate_getpass E data))"
    by blast+
  show "isl (snd (process_document E date_info [] template_file output_file))"
    by (rule process_document_empty)
next
  fix d ds info doc
  assume a: "dates data = d # ds \<and> convert_to_hijri E d = Inr info
            \<and> copy_file E Template (Temp (docx_name 0)) = None
            \<and> open_docx E (Temp (docx_name 0)) = Inr doc"
  then have c: "convert_to_hijri E d = Inr info" by simp
  from a have "process_document E info [] Template (Temp (docx_name 0)) =
           ([Copy Template (Temp (docx_name 0))], Inl (IndexError (ascii ''list index out of range'')))"
    by (intro process_document_empty_index convert_to_hijri_parts [OF c]) simp_all
  with a assms show "generate_getpass E data =
              ([Copy Template (Temp (docx_name 0))],
               HTTPError 500 (ascii ''Internal Server Error: list index out of range''))"
    by (simp add: generate_getpass_def try_body_def ascii_def)
qed

text \<open>Witness for C9: no visitor and the date 1 January 2024.\<close>

theorem empty_people_responds_500_witness:
  "generate_getpass example_env \<lparr>people = [], dates = [ascii ''2024-01-01'']\<rparr> =
     ([Copy Template (Temp (docx_name 0))],
      HTTPError 500 (ascii ''Internal Server Error: list index out of range''))"
proof -
  have p: "people \<lparr>people = [], dates = [ascii ''2024-01-01'']\<rparr> = []"
    by simp
  note t = empty_people_responds_500 [OF p, of example_env,
      THEN conjunct2, THEN conjunct2, THEN conjunct2, rule_format]
  have cp: "copy_file example_env Template (Temp (docx_name 0)) = None"
    by (simp add: example_env_def)
  have op: "open_docx example_env (Temp (docx_name 0)) = Inr example_template"
    by (simp add: example_env_def)
  show ?thesis
    by (rule t [of "ascii ''2024-01-01''" "[]"
                  "(ascii ''19/06/1445'', [1575, 1604, 1573, 1579, 1606, 1610, 1606], ascii ''01/01/2024'')"
                  example_template])
       (simp add: example_conversion cp op)
qed

section \<open>The second table\<close>

























section \<open>The consolidation\<close>


lemma date_loop_result:
  assumes "date_loop E visitors i ds (dx, px, ok) = (tr, Inr (dx', px', ok'))"
  shows "dx' = dx @ map docx_at [i..<i + length ds]
       \<and> px' = px @ map pdf_at (filter (converts E) [i..<i + length ds])
       \<and> ok' = (ok \<and> (\<forall>k<length ds. converts E (i + k)))"
  using assms
proof (induction ds arbitrary: i dx px ok tr)
  case Nil
  then show ?case by simp
next
  case (Cons d rest)
  from Cons.prems obtain info where ci: "convert_to_hijri E d = Inr info"
    by (cases "convert_to_hijri E d") auto
  obtain tr1 r1 where pd: "process_document E info visitors Template (docx_at i) = (tr1, r1)"
    by (cases "process_document E info visitors Template (docx_at i)") auto
  from Cons.prems ci pd obtain doc where r1: "r1 = Inr doc"
    by (cases r1) (auto simp: Let_def)
  let ?st = "if converts E i then (dx @ [docx_at i], px @ [pdf_at i], ok)
             else (dx @ [docx_at i], px, False)"
  obtain tr2 r2 where rec: "date_loop E visitors (Suc i) rest ?st = (tr2, r2)"
    by (cases "date_loop E visitors (Suc i) rest ?st") auto
  from Cons.prems ci pd r1 rec have r2: "r2 = Inr (dx', px', ok')"
    by (simp add: Let_def)
  have "i < i + length (d # rest)" by simp
  from upt_conv_Cons [OF this]
  have up: "[i..<i + length (d # rest)] = i # [Suc i..<Suc i + length rest]"
    by simp
  have al: "(\<forall>k<length (d # rest). converts E (i + k)) =
            (converts E i \<and> (\<forall>k<length rest. converts E (Suc i + k)))"
    by (auto simp: less_Suc_eq_0_disj)
  show ?case
  proof (cases "converts E i")
    case True
    with rec r2 have "date_loop E visitors (Suc i) rest (dx @ [docx_at i], px @ [pdf_at i], ok)
                        = (tr2, Inr (dx', px', ok'))" by simp
    from Cons.IH [OF this] True show ?thesis unfolding up al by simp
  next
    case False
    with rec r2 have "date_loop E visitors (Suc i) rest (dx @ [docx_at i], px, False)
                        = (tr2, Inr (dx', px', ok'))" by simp
    from Cons.IH [OF this] False show ?thesis unfolding up al by simp
  qed
qed


lemma generate_getpass_after_loop:
  assumes "date_loop E (people data) 0 (dates data) ([], [], True) = (tr, Inr (dx, px, ok))"
  shows "generate_getpass E data =
           (tr @ fst (consolidate E dx px ok),
            case snd (consolidate E dx px ok) of
              Inl e \<Rightarrow> HTTPError 500 (ascii ''Internal Server Error: '' @ exn_str E e)
            | Inr resp \<Rightarrow> resp)"
  using assms
  by (cases "consolidate E dx px ok"; cases "snd (consolidate E dx px ok)")
     (simp_all add: generate_getpass_def try_body_def)

lemma process_document_few:
  assumes "copy_file E t out = None" and "open_docx E out = Inr opened"
    and "save_docx E out = None" and "replacements_of info visitors = Inr r"
    and "length visitors \<le> 2"
  shows "process_document E info visitors t out =
           ([Copy t out, Save out],
            Inr (snd (embed_fonts E (fill_tables r visitors (fst (snd info)) opened))))"
  using assms by (simp add: process_document_def bind_exn_def write_overflow_def)

lemma example_loop:
  assumes "fromisoformat E = fromisoformat example_env"
    and "to_hijri E = to_hijri example_env"
    and "copy_file E = copy_file example_env"
    and "open_docx E = open_docx example_env"
    and "save_docx E = save_docx example_env"
    and "unoconv E = unoconv example_env"
  shows "date_loop E [ali] 0 [ascii ''2024-01-01'', ascii ''2024-01-07''] ([], [], True) =
           ([Copy Template (docx_at 0), Save (docx_at 0), Unoconv (docx_at 0) (pdf_at 0),
             Copy Template (docx_at 1), Save (docx_at 1), Unoconv (docx_at 1) (pdf_at 1)],
            Inr ([docx_at 0, docx_at 1], [pdf_at 0, pdf_at 1], True))"
proof -
  have cv: "\<And>s. convert_to_hijri E s = convert_to_hijri example_env s"
    unfolding convert_to_hijri_def assms(1,2) by (rule refl)
  have c1: "convert_to_hijri E (ascii ''2024-01-01'') =
      Inr (ascii ''19/06/1445'', [1575, 1604, 1573, 1579, 1606, 1610, 1606], ascii ''01/01/2024'')"
    unfolding cv by (rule example_conversion)
  have c7: "convert_to_hijri E (ascii ''2024-01-07'') =
      Inr (ascii ''25/06/1445'', [1575, 1604, 1571, 1581, 1583], ascii ''07/01/2024'')"
    unfolding cv by (rule example_conversion_7)
  have pd: "\<exists>doc. process_document E info [ali] Template out = ([Copy Template out, Save out], Inr doc)"
    if "convert_to_hijri E s = Inr info" for s info out
  proof -
    have "\<not> isl (replacements_of (fst info, fst (snd info), snd (snd info)) [ali])"
      by (rule replacements_of_total) (simp_all add: convert_to_hijri_parts [OF that])
    then obtain r where r: "replacements_of info [ali] = Inr r"
      by (cases "replacements_of info [ali]") auto
    have "process_document E info [ali] Template out =
           ([Copy Template out, Save out],
            Inr (snd (embed_fonts E (fill_tables r [ali] (fst (snd info)) example_template))))"
      by (rule process_document_few [OF _ _ _ r]) (simp_all add: assms example_env_def)
    then show ?thesis by blast
  qed
  from pd [OF c1, of "docx_at 0"] obtain doc1 where
    p1: "process_document E
           (ascii ''19/06/1445'', [1575, 1604, 1573, 1579, 1606, 1610, 1606], ascii ''01/01/2024'')
           [ali] Template (docx_at 0) = ([Copy Template (docx_at 0), Save (docx_at 0)], Inr doc1)"
    by blast
  from pd [OF c7, of "docx_at (Suc 0)"] obtain doc7 where
    p7: "process_document E
           (ascii ''25/06/1445'', [1575, 1604, 1571, 1581, 1583], ascii ''07/01/2024'')
           [ali] Template (docx_at (Suc 0))
           = ([Copy Template (docx_at (Suc 0)), Save (docx_at (Suc 0))], Inr doc7)"
    by blast
  have cp: "\<And>a b. convert_to_pdf E a b"
    by (simp add: convert_to_pdf_def assms example_env_def)
  show ?thesis
    by (simp add: c1 c7 p1 p7 cp Let_def)
qed


lemma example_loop_merge_fails:
  "date_loop merge_fails_env [ali] 0 [ascii ''2024-01-01'', ascii ''2024-01-07''] ([], [], True) =
           ([Copy Template (docx_at 0), Save (docx_at 0), Unoconv (docx_at 0) (pdf_at 0),
             Copy Template (docx_at 1), Save (docx_at 1), Unoconv (docx_at 1) (pdf_at 1)],
            Inr ([docx_at 0, docx_at 1], [pdf_at 0, pdf_at 1], True))"
  by (rule example_loop) (simp_all add: merge_fails_env_def)

text \<open>
  Counterexample for C3 (the claim: when every conversion succeeded and there is more
  than one PDF, the PDFs are merged and the merged PDF is returned). One visitor and two
  dates, both documents are converted, and PyPDF2 raises while merging: \<open>merge_pdfs\<close>
  returns \<open>False\<close>, line 502 clears \<open>conversion_success\<close>, and the response is the ZIP of
  the two Word documents.
\<close>

theorem merge_failure_counterexample:
  "converts merge_fails_env 0 \<and> converts merge_fails_env 1 \<and>
   generate_getpass merge_fails_env
       \<lparr>people = [ali], dates = [ascii ''2024-01-01'', ascii ''2024-01-07'']\<rparr> =
     ([Copy Template (docx_at 0), Save (docx_at 0), Unoconv (docx_at 0) (pdf_at 0),
       Copy Template (docx_at 1), Save (docx_at 1), Unoconv (docx_at 1) (pdf_at 1),
       MakeDirs OutputDir, PdfMerge [pdf_at 0, pdf_at 1] final_pdf_path,
       Zip [docx_at 0, docx_at 1] zip_path],
      FileResponse (Output (ascii ''getpass_documents.zip'')) (ascii ''getpass_documents.zip'')
        (ascii ''application/zip''))"
proof -
  have cp: "\<And>a b. convert_to_pdf merge_fails_env a b"
    by (simp add: convert_to_pdf_def merge_fails_env_def example_env_def)
  have l: "date_loop merge_fails_env
             (people \<lparr>people = [ali], dates = [ascii ''2024-01-01'', ascii ''2024-01-07'']\<rparr>) 0
             (dates \<lparr>people = [ali], dates = [ascii ''2024-01-01'', ascii ''2024-01-07'']\<rparr>)
             ([], [], True) =
           ([Copy Template (docx_at 0), Save (docx_at 0), Unoconv (docx_at 0) (pdf_at 0),
             Copy Template (docx_at 1), Save (docx_at 1), Unoconv (docx_at 1) (pdf_at 1)],
            Inr ([docx_at 0, docx_at 1], [pdf_at 0, pdf_at 1], True))"
    using example_loop_merge_fails by simp
  have c: "consolidate merge_fails_env [docx_at 0, docx_at 1] [pdf_at 0, pdf_at 1] True =
             ([MakeDirs OutputDir, PdfMerge [pdf_at 0, pdf_at 1] final_pdf_path,
               Zip [docx_at 0, docx_at 1] zip_path], Inr zip_response)"
    by (simp add: consolidate_def word_fallback_def merge_pdfs_def create_docx_zip_def
        merge_fails_env_def example_env_def)
  show ?thesis
    unfolding generate_getpass_after_loop [OF l] c
    by (simp add: cp zip_response_def zip_path_def)
qed


lemma length_filter_upt_all:
  "(\<forall>i<n. P i) \<Longrightarrow> filter P [0..<n] = [0..<n]"
  by (simp add: filter_id_conv)

text \<open>
  Claim C3, amended. When the loop over the dates ends without an exception, there is
  one Word document per date, in the order of the dates, the PDFs are those of the dates
  whose conversion succeeded, in the same order, and \<open>conversion_success\<close> says that every
  conversion succeeded. Then, the output directory made:
  every conversion succeeded and there are several dates: all the PDFs are merged, in
  the order of the dates, and the merged PDF is the response when the merge succeeds;
  when the merge fails the ZIP of the Word documents is (the 500 when the ZIP fails too);
  every conversion succeeded and there is one date: its PDF is copied and is the
  response, without any merge;
  a conversion failed: the Word document is copied and is the response when there is
  one date, the ZIP of all the Word documents is the response otherwise, and the 500
  saying \<open>Failed to generate documents\<close> when the ZIP fails;
  no date: the same 500.
  Each of \<open>merge_pdfs\<close>, \<open>create_docx_zip\<close> and copy is called at most once: nothing is
  retried. An exception of \<open>os.makedirs\<close> or of a copy gives a 500 carrying its message.
\<close>

theorem consolidation_priority:
  assumes "date_loop E (people data) 0 (dates data) ([], [], True)
             = (tr, Inr (docx_files, pdf_files, ok))"
  shows "docx_files = map docx_at [0..<length (dates data)]
       \<and> pdf_files = map pdf_at (filter (converts E) [0..<length (dates data)])
       \<and> ok = (\<forall>i<length (dates data). converts E i)
       \<and> (ok \<longrightarrow> pdf_files = map pdf_at [0..<length (dates data)])
       \<and> (case makedirs E OutputDir of
            Some e \<Rightarrow>
              generate_getpass E data =
                (tr @ [MakeDirs OutputDir],
                 HTTPError 500 (ascii ''Internal Server Error: '' @ exn_str E e))
          | None \<Rightarrow>
              (ok \<and> 1 < length (dates data) \<and> pdf_merge E pdf_files final_pdf_path = None \<longrightarrow>
                 generate_getpass E data =
                   (tr @ [MakeDirs OutputDir, PdfMerge pdf_files final_pdf_path], pdf_response))
            \<and> (ok \<and> 1 < length (dates data) \<and> pdf_merge E pdf_files final_pdf_path \<noteq> None \<longrightarrow>
                 generate_getpass E data =
                   (tr @ [MakeDirs OutputDir, PdfMerge pdf_files final_pdf_path,
                          Zip docx_files zip_path],
                    if zip_write E docx_files zip_path = None then zip_response
                    else HTTPError 500 (ascii ''Internal Server Error: ''
                           @ http_str E 500 (ascii ''Failed to generate documents''))))
            \<and> (ok \<and> length (dates data) = 1 \<longrightarrow>
                 generate_getpass E data =
                   (tr @ [MakeDirs OutputDir, Copy (pdf_at 0) final_pdf_path],
                    case copy_file E (pdf_at 0) final_pdf_path of
                      None \<Rightarrow> pdf_response
                    | Some e \<Rightarrow> HTTPError 500 (ascii ''Internal Server Error: '' @ exn_str E e)))
            \<and> (\<not> ok \<and> length (dates data) = 1 \<longrightarrow>
                 generate_getpass E data =
                   (tr @ [MakeDirs OutputDir, Copy (docx_at 0) final_docx_path],
                    case copy_file E (docx_at 0) final_docx_path of
                      None \<Rightarrow> docx_response
                    | Some e \<Rightarrow> HTTPError 500 (ascii ''Internal Server Error: '' @ exn_str E e)))
            \<and> (\<not> ok \<and> length (dates data) \<noteq> 1 \<longrightarrow>
                 generate_getpass E data =
                   (tr @ [MakeDirs OutputDir, Zip docx_files zip_path],
                    if zip_write E docx_files zip_path = None then zip_response
                    else HTTPError 500 (ascii ''Internal Server Error: ''
                           @ http_str E 500 (ascii ''Failed to generate documents''))))
            \<and> (length (dates data) = 0 \<longrightarrow>
                 generate_getpass E data =
                   (tr @ [MakeDirs OutputDir],
                    HTTPError 500 (ascii ''Internal Server Error: ''
                      @ http_str E 500 (ascii ''Failed to generate documents'')))))"
proof -
  let ?n = "length (dates data)"
  from date_loop_result [OF assms]
  have dx: "docx_files = map docx_at [0..<?n]"
    and px: "pdf_files = map pdf_at (filter (converts E) [0..<?n])"
    and ok: "ok = (\<forall>i<?n. converts E i)"
    by simp_all
  have pxa: "pdf_files = map pdf_at [0..<?n]" if ok
    using that px ok by (simp add: length_filter_upt_all)
  have ld: "length docx_files = ?n" by (simp add: dx)
  have lp: "length pdf_files = ?n" if ok using pxa [OF that] by simp
  have d0: "docx_files ! 0 = docx_at 0" if "?n = 1" using that by (simp add: dx)
  have p0: "pdf_files ! 0 = pdf_at 0" if ok "?n = 1" using that pxa by simp
  have nz: "0 < ?n" if "\<not> ok" using that ok by auto
  note g = generate_getpass_after_loop [OF assms]
  have branches: "case makedirs E OutputDir of
            Some e \<Rightarrow>
              generate_getpass E data =
                (tr @ [MakeDirs OutputDir],
                 HTTPError 500 (ascii ''Internal Server Error: '' @ exn_str E e))
          | None \<Rightarrow>
              (ok \<and> 1 < length (dates data) \<and> pdf_merge E pdf_files final_pdf_path = None \<longrightarrow>
                 generate_getpass E data =
                   (tr @ [MakeDirs OutputDir, PdfMerge pdf_files final_pdf_path], pdf_response))
            \<and> (ok \<and> 1 < length (dates data) \<and> pdf_merge E pdf_files final_pdf_path \<noteq> None \<longrightarrow>
                 generate_getpass E data =
                   (tr @ [MakeDirs OutputDir, PdfMerge pdf_files final_pdf_path,
                          Zip docx_files zip_path],
                    if zip_write E docx_files zip_path = None then zip_response
                    else HTTPError 500 (ascii ''Internal Server Error: ''
                           @ http_str E 500 (ascii ''Failed to generate documents''))))
            \<and> (ok \<and> length (dates data) = 1 \<longrightarrow>
                 generate_getpass E data =
                   (tr @ [MakeDirs OutputDir, Copy (pdf_at 0) final_pdf_path],
                    case copy_file E (pdf_at 0) final_pdf_path of
                      None \<Rightarrow> pdf_response
                    | Some e \<Rightarrow> HTTPError 500 (ascii ''Internal Server Error: '' @ exn_str E e)))
            \<and> (\<not> ok \<and> length (dates data) = 1 \<longrightarrow>
                 generate_getpass E data =
                   (tr @ [MakeDirs OutputDir, Copy (docx_at 0) final_docx_path],
                    case copy_file E (docx_at 0) final_docx_path of
                      None \<Rightarrow> docx_response
                    | Some e \<Rightarrow> HTTPError 500 (ascii ''Internal Server Error: '' @ exn_str E e)))
            \<and> (\<not> ok \<and> length (dates data) \<noteq> 1 \<longrightarrow>
                 generate_getpass E data =
                   (tr @ [MakeDirs OutputDir, Zip docx_files zip_path],
                    if zip_write E docx_files zip_path = None then zip_response
                    else HTTPError 500 (ascii ''Internal Server Error: ''
                           @ http_str E 500 (ascii ''Failed to generate documents''))))
            \<and> (length (dates data) = 0 \<longrightarrow>
                 generate_getpass E data =
                   (tr @ [MakeDirs OutputDir],
                    HTTPError 500 (ascii ''Internal Server Error: ''
                      @ http_str E 500 (ascii ''Failed to generate documents''))))"
  proof (cases "makedirs E OutputDir")
    case (Some e)
    then show ?thesis unfolding g by (simp add: consolidate_def)
  next
    case None
    have b1: "generate_getpass E data =
                (tr @ [MakeDirs OutputDir, PdfMerge pdf_files final_pdf_path], pdf_response)"
      if "ok" "1 < ?n" "pdf_merge E pdf_files final_pdf_path = None"
      unfolding g using that None lp
      by (simp add: consolidate_def merge_pdfs_def)
    have b2: "generate_getpass E data =
                (tr @ [MakeDirs OutputDir, PdfMerge pdf_files final_pdf_path,
                       Zip docx_files zip_path],
                 if zip_write E docx_files zip_path = None then zip_response
                 else HTTPError 500 (ascii ''Internal Server Error: ''
                        @ http_str E 500 (ascii ''Failed to generate documents'')))"
      if "ok" "1 < ?n" "pdf_merge E pdf_files final_pdf_path \<noteq> None"
      unfolding g using that None lp ld
      by (auto simp: consolidate_def merge_pdfs_def word_fallback_def create_docx_zip_def
          failed_to_generate_def split: option.splits)
    have b3: "generate_getpass E data =
                (tr @ [MakeDirs OutputDir, Copy (pdf_at 0) final_pdf_path],
                 case copy_file E (pdf_at 0) final_pdf_path of
                   None \<Rightarrow> pdf_response
                 | Some e \<Rightarrow> HTTPError 500 (ascii ''Internal Server Error: '' @ exn_str E e))"
      if "ok" "?n = 1"
      unfolding g using that None lp p0
      by (auto simp: consolidate_def split: option.splits)
    have b4: "generate_getpass E data =
                (tr @ [MakeDirs OutputDir, Copy (docx_at 0) final_docx_path],
                 case copy_file E (docx_at 0) final_docx_path of
                   None \<Rightarrow> docx_response
                 | Some e \<Rightarrow> HTTPError 500 (ascii ''Internal Server Error: '' @ exn_str E e))"
      if "\<not> ok" "?n = 1"
      unfolding g using that None ld d0
      by (auto simp: consolidate_def word_fallback_def split: option.splits)
    have b5: "generate_getpass E data =
                (tr @ [MakeDirs OutputDir, Zip docx_files zip_path],
                 if zip_write E docx_files zip_path = None then zip_response
                 else HTTPError 500 (ascii ''Internal Server Error: ''
                        @ http_str E 500 (ascii ''Failed to generate documents'')))"
      if "\<not> ok" "?n \<noteq> 1"
      unfolding g using that None ld
      by (auto simp: consolidate_def word_fallback_def create_docx_zip_def
          failed_to_generate_def split: option.splits)
    have b6: "generate_getpass E data =
                (tr @ [MakeDirs OutputDir],
                 HTTPError 500 (ascii ''Internal Server Error: ''
                   @ http_str E 500 (ascii ''Failed to generate documents'')))"
      if "?n = 0"
    proof -
      from that ok have ok by simp
      with that lp have "length pdf_files = 0" by simp
      with \<open>ok\<close> None show ?thesis
        unfolding g by (simp add: consolidate_def failed_to_generate_def)
    qed
    from b1 b2 b3 b4 b5 b6 None show ?thesis by simp
  qed
  from dx px ok pxa branches show ?thesis by blast
qed


text \<open>
  Witness for the amended C3: one visitor and two dates, every conversion succeeds.
  Where the merge succeeds the response is the merged PDF; where PyPDF2 raises it is
  the ZIP of the two Word documents.
\<close>

theorem consolidation_priority_witness:
  "generate_getpass example_env
       \<lparr>people = [ali], dates = [ascii ''2024-01-01'', ascii ''2024-01-07'']\<rparr> =
     ([Copy Template (docx_at 0), Save (docx_at 0), Unoconv (docx_at 0) (pdf_at 0),
       Copy Template (docx_at 1), Save (docx_at 1), Unoconv (docx_at 1) (pdf_at 1),
       MakeDirs OutputDir, PdfMerge [pdf_at 0, pdf_at 1] final_pdf_path],
      pdf_response)
   \<and> generate_getpass merge_fails_env
       \<lparr>people = [ali], dates = [ascii ''2024-01-01'', ascii ''2024-01-07'']\<rparr> =
     ([Copy Template (docx_at 0), Save (docx_at 0), Unoconv (docx_at 0) (pdf_at 0),
       Copy Template (docx_at 1), Save (docx_at 1), Unoconv (docx_at 1) (pdf_at 1),
       MakeDirs OutputDir, PdfMerge [pdf_at 0, pdf_at 1] final_pdf_path,
       Zip [docx_at 0, docx_at 1] zip_path],
      zip_response)"
proof -
  let ?D = "\<lparr>people = [ali], dates = [ascii ''2024-01-01'', ascii ''2024-01-07'']\<rparr>"
  let ?tr = "[Copy Template (docx_at 0), Save (docx_at 0), Unoconv (docx_at 0) (pdf_at 0),
       Copy Template (docx_at 1), Save (docx_at 1), Unoconv (docx_at 1) (pdf_at 1)]"
  have l1: "date_loop example_env (people ?D) 0 (dates ?D) ([], [], True) =
              (?tr, Inr ([docx_at 0, docx_at 1], [pdf_at 0, pdf_at 1], True))"
    using example_loop [of example_env] by simp
  have l2: "date_loop merge_fails_env (people ?D) 0 (dates ?D) ([], [], True) =
              (?tr, Inr ([docx_at 0, docx_at 1], [pdf_at 0, pdf_at 1], True))"
    using example_loop_merge_fails by simp
  have mk1: "makedirs example_env OutputDir = None"
    and pm1: "pdf_merge example_env [pdf_at 0, pdf_at 1] final_pdf_path = None"
    by (simp_all add: example_env_def)
  have mk2: "makedirs merge_fails_env OutputDir = None"
    and pm2: "pdf_merge merge_fails_env [pdf_at 0, pdf_at 1] final_pdf_path \<noteq> None"
    and zp2: "zip_write merge_fails_env [docx_at 0, docx_at 1] zip_path = None"
    by (simp_all add: merge_fails_env_def example_env_def)
  note t1 = consolidation_priority [OF l1, THEN conjunct2, THEN conjunct2, THEN conjunct2,
      THEN conjunct2, unfolded mk1 option.case, THEN conjunct1, rule_format]
  note t2 = consolidation_priority [OF l2, THEN conjunct2, THEN conjunct2, THEN conjunct2,
      THEN conjunct2, unfolded mk2 option.case, THEN conjunct2, THEN conjunct1, rule_format]
  have "generate_getpass example_env ?D =
          (?tr @ [MakeDirs OutputDir, PdfMerge [pdf_at 0, pdf_at 1] final_pdf_path], pdf_response)"
    by (rule t1) (use pm1 in simp)
  moreover
  have "generate_getpass merge_fails_env ?D =
          (?tr @ [MakeDirs OutputDir, PdfMerge [pdf_at 0, pdf_at 1] final_pdf_path,
                  Zip [docx_at 0, docx_at 1] zip_path], zip_response)"
    unfolding t2 [OF conjI [OF TrueI conjI [OF _ pm2]], simplified] using zp2 by simp
  ultimately show ?thesis by simp
qed

end
